theory Spec2Isabelle
  imports Complex_Main "HOL-Library.Sublist"
begin

section \<open>Python values\<close>

text \<open>
  The payloads handled by \<^verbatim>\<open>EnhancedIntegrationManager\<close> are \<^verbatim>\<open>Dict[str, Any]\<close>
  values decoded from feeds. They are modelled as the JSON fragment of Python's
  values: \<^verbatim>\<open>None\<close>, booleans, unbounded integers, strings, lists and dictionaries
  with string keys. A dictionary is an association list in insertion order; a
  lookup takes the first entry of a key. Strings are ASCII. Floats inside a payload
  are left out: the manager computes with no number of a payload.
\<close>

datatype pyval =
    PNone
  | PBool bool
  | PInt int
  | PStr string
  | PList "pyval list"
  | PDict "(string \<times> pyval) list"

type_synonym pydict = "(string \<times> pyval) list"

text \<open>
  Exceptions as values. \<open>py_exception\<close> holds the instances of \<^verbatim>\<open>Exception\<close>,
  each with its message; \<open>UpstreamError\<close> stands for whatever exception of that
  class a collaborator or a handler raises. \<open>py_error\<close> holds everything that can be
  raised, the instances of \<^verbatim>\<open>BaseException\<close>: those of \<^verbatim>\<open>Exception\<close>, and
  \<^verbatim>\<open>asyncio.CancelledError\<close>, \<^verbatim>\<open>KeyboardInterrupt\<close> and \<^verbatim>\<open>SystemExit\<close>, which
  are not instances of \<^verbatim>\<open>Exception\<close>. A clause \<^verbatim>\<open>except Exception\<close> catches the
  former and lets the latter three pass.
\<close>

datatype py_exception =
    AttributeError string
  | TypeError string
  | OverflowError string
  | ZeroDivisionError string
  | UpstreamError string

datatype py_error =
    Exc py_exception
  | CancelledError
  | KeyboardInterrupt
  | SystemExit

fun is_exception :: "py_error \<Rightarrow> bool" where
  "is_exception (Exc e) = True"
| "is_exception CancelledError = False"
| "is_exception KeyboardInterrupt = False"
| "is_exception SystemExit = False"


text \<open>\<^verbatim>\<open>str(e)\<close> on an exception: its message.\<close>

fun str_of_exception :: "py_exception \<Rightarrow> string" where
  "str_of_exception (AttributeError m) = m"
| "str_of_exception (TypeError m) = m"
| "str_of_exception (OverflowError m) = m"
| "str_of_exception (ZeroDivisionError m) = m"
| "str_of_exception (UpstreamError m) = m"

text \<open>Sequencing of calls that may raise.\<close>

definition bind_e :: "py_error + 'a \<Rightarrow> ('a \<Rightarrow> py_error + 'b) \<Rightarrow> py_error + 'b" where
  "bind_e x f = (case x of Inl e \<Rightarrow> Inl e | Inr a \<Rightarrow> f a)"

text \<open>Python's truth value: \<^verbatim>\<open>bool(v)\<close>, as \<^verbatim>\<open>if v:\<close> and \<^verbatim>\<open>any\<close> test it.\<close>

fun truthy :: "pyval \<Rightarrow> bool" where
  "truthy PNone = False"
| "truthy (PBool b) = b"
| "truthy (PInt i) = (i \<noteq> 0)"
| "truthy (PStr s) = (s \<noteq> [])"
| "truthy (PList xs) = (xs \<noteq> [])"
| "truthy (PDict kvs) = (kvs \<noteq> [])"

text \<open>\<^verbatim>\<open>key in d\<close> and \<^verbatim>\<open>d.get(key)\<close> (default \<^verbatim>\<open>None\<close>) on a dictionary.\<close>

definition dict_contains :: "string \<Rightarrow> pydict \<Rightarrow> bool" where
  "dict_contains k d = (map_of d k \<noteq> None)"

definition dict_get :: "pydict \<Rightarrow> string \<Rightarrow> pyval" where
  "dict_get d k = (case map_of d k of None \<Rightarrow> PNone | Some v \<Rightarrow> v)"

text \<open>\<^verbatim>\<open>d.get(key, default)\<close>.\<close>

definition dict_get_default :: "pydict \<Rightarrow> string \<Rightarrow> pyval \<Rightarrow> pyval" where
  "dict_get_default d k dflt = (case map_of d k of None \<Rightarrow> dflt | Some v \<Rightarrow> v)"

text \<open>
  \<^verbatim>\<open>d[key] = v\<close>: an existing key keeps its position and takes the new value,
  a new key goes to the end.
\<close>

fun dict_set :: "pydict \<Rightarrow> string \<Rightarrow> pyval \<Rightarrow> pydict" where
  "dict_set [] k v = [(k, v)]"
| "dict_set ((k', v') # d) k v =
     (if k' = k then (k, v) # d else (k', v') # dict_set d k v)"

text \<open>
  \<^verbatim>\<open>v.get(key)\<close> on an arbitrary value: only a dictionary has the method, every
  other value of the fragment raises \<^verbatim>\<open>AttributeError\<close>.
\<close>

fun py_get :: "pyval \<Rightarrow> string \<Rightarrow> py_error + pyval" where
  "py_get (PDict d) k = Inr (dict_get d k)"
| "py_get v k = Inl (Exc (AttributeError ''object has no attribute 'get' ''))"

section \<open>Enumerations\<close>

text \<open>
  \<^verbatim>\<open>SportType\<close> is imported from the feed client; the manager names the members
  \<^verbatim>\<open>MLB\<close>, \<^verbatim>\<open>NBA\<close>, \<^verbatim>\<open>NFL\<close> and \<^verbatim>\<open>NHL\<close>. Any further member of the
  enumeration is \<open>OtherSport\<close> with its name.
\<close>

datatype SportType = MLB | NBA | NFL | NHL | OtherSport string

datatype EventType =
    SCORE_UPDATE
  | GAME_STATE_CHANGE
  | ODDS_CHANGE
  | INJURY_REPORT
  | DATA_SOURCE_UPDATE

datatype InvalidationScope = EXACT | RELATED | PATTERN

section \<open>Floating-point numbers\<close>

text \<open>
  A Python \<^verbatim>\<open>float\<close> is an IEEE binary64 number. A finite one is taken as the
  real number it denotes, and an operation as the exact operation followed by
  rounding to the nearest float, ties to the even significand. \<open>binary64\<close> is the
  rounding to a 53-bit significand with an unbounded exponent: the rounding of
  IEEE arithmetic for magnitudes in the normal range, which is where the lifetimes
  live. \<open>round_float\<close> below adds the two ends of the range.
\<close>

definition round_half_even :: "real \<Rightarrow> int" where
  "round_half_even q =
     (let f = \<lfloor>q\<rfloor>; r = q - of_int f
      in if r < 1 / 2 then f else if 1 / 2 < r then f + 1 else if even f then f else f + 1)"

fun bit_length :: "nat \<Rightarrow> nat" where
  "bit_length n = (if n = 0 then 0 else Suc (bit_length (n div 2)))"

declare bit_length.simps [simp del]

text \<open>The exponent \<open>e\<close> with \<open>2 ^ e \<le> x < 2 ^ (e + 1)\<close>, for positive \<open>x\<close>.\<close>

definition floor_log2 :: "real \<Rightarrow> int" where
  "floor_log2 x =
     (if 1 \<le> x then int (bit_length (nat \<lfloor>x\<rfloor>)) - 1
      else - int (bit_length (nat \<lceil>1 / x\<rceil> - 1)))"

definition pow2 :: "int \<Rightarrow> real" where
  "pow2 e = (if 0 \<le> e then 2 ^ nat e else 1 / 2 ^ nat (- e))"

definition binary64 :: "real \<Rightarrow> real" where
  "binary64 x =
     (if x = 0 then 0
      else let e = floor_log2 \<bar>x\<bar>;
               n = round_half_even (\<bar>x\<bar> * pow2 (52 - e))
           in sgn x * of_int n * pow2 (e - 52))"

text \<open>\<^verbatim>\<open>int(x)\<close> on a float: truncation toward zero.\<close>

definition py_int :: "real \<Rightarrow> int" where
  "py_int x = (if 0 \<le> x then \<lfloor>x\<rfloor> else \<lceil>x\<rceil>)"

text \<open>
  The values of type \<^verbatim>\<open>float\<close>: the finite ones, the two infinities and
  not-a-number. The sign of a zero is not kept: the manager divides by no float
  that can be zero.
\<close>

datatype pyfloat = Finite real | PosInf | NegInf | NaN

text \<open>
  Rounding of an exact result to a float. Below \<open>2 ^ -1022\<close> the floats are the
  multiples of \<open>2 ^ -1074\<close> (the subnormal numbers); a result that rounds to
  \<open>2 ^ 1024\<close> or beyond overflows to the infinity of its sign.
\<close>

definition round_float :: "real \<Rightarrow> pyfloat" where
  "round_float x =
     (if \<bar>x\<bar> < pow2 (- 1022)
      then Finite (sgn x * of_int (round_half_even (\<bar>x\<bar> * pow2 1074)) * pow2 (- 1074))
      else if pow2 1024 \<le> \<bar>binary64 x\<bar>
        then (if 0 < x then PosInf else NegInf)
      else Finite (binary64 x))"

fun float_neg :: "pyfloat \<Rightarrow> pyfloat" where
  "float_neg (Finite a) = Finite (- a)"
| "float_neg PosInf = NegInf"
| "float_neg NegInf = PosInf"
| "float_neg NaN = NaN"

fun float_add :: "pyfloat \<Rightarrow> pyfloat \<Rightarrow> pyfloat" where
  "float_add (Finite a) (Finite b) = round_float (a + b)"
| "float_add NaN y = NaN"
| "float_add x NaN = NaN"
| "float_add PosInf NegInf = NaN"
| "float_add NegInf PosInf = NaN"
| "float_add PosInf y = PosInf"
| "float_add NegInf y = NegInf"
| "float_add x PosInf = PosInf"
| "float_add x NegInf = NegInf"

definition float_sub :: "pyfloat \<Rightarrow> pyfloat \<Rightarrow> pyfloat" where
  "float_sub x y = float_add x (float_neg y)"

text \<open>The sign of a float that is not \<open>NaN\<close>: -1, 0 or 1.\<close>

fun float_sign :: "pyfloat \<Rightarrow> real" where
  "float_sign (Finite a) = sgn a"
| "float_sign PosInf = 1"
| "float_sign NegInf = - 1"
| "float_sign NaN = 0"

definition signed_inf :: "real \<Rightarrow> pyfloat" where
  "signed_inf sg = (if sg = 0 then NaN else if 0 < sg then PosInf else NegInf)"

fun float_mul :: "pyfloat \<Rightarrow> pyfloat \<Rightarrow> pyfloat" where
  "float_mul (Finite a) (Finite b) = round_float (a * b)"
| "float_mul NaN y = NaN"
| "float_mul x NaN = NaN"
| "float_mul x y = signed_inf (float_sign x * float_sign y)"

text \<open>
  \<^verbatim>\<open>x / y\<close> on floats: Python raises \<^verbatim>\<open>ZeroDivisionError\<close> on a zero divisor.
\<close>

fun float_div :: "pyfloat \<Rightarrow> pyfloat \<Rightarrow> py_error + pyfloat" where
  "float_div x (Finite b) =
     (if b = 0 then Inl (Exc (ZeroDivisionError ''float division by zero''))
      else (case x of
              Finite a \<Rightarrow> Inr (round_float (a / b))
            | NaN \<Rightarrow> Inr NaN
            | infinity \<Rightarrow> Inr (signed_inf (float_sign infinity * sgn b))))"
| "float_div x NaN = Inr NaN"
| "float_div (Finite a) y = Inr (Finite 0)"
| "float_div x y = Inr NaN"

text \<open>
  An integer operand of a float operation is converted first, to the nearest
  float; Python raises \<^verbatim>\<open>OverflowError\<close> when the integer is beyond the range.
\<close>

definition float_of_int :: "int \<Rightarrow> py_error + pyfloat" where
  "float_of_int i =
     (case round_float (of_int i) of
        Finite a \<Rightarrow> Inr (Finite a)
      | other \<Rightarrow> Inl (Exc (OverflowError ''int too large to convert to float'')))"

section \<open>Sport-specific cache lifetime\<close>

text \<open>
  \<^verbatim>\<open>_get_sport_specific_cache_ttl\<close>: two dictionary lookups with defaults, a
  product and \<^verbatim>\<open>int(...)\<close>. A multiplier is the float that its decimal literal
  denotes; the base is an integer, converted exactly, and the product is a float
  product.
\<close>

definition base_ttls :: "string \<rightharpoonup> int" where
  "base_ttls = map_of
     [(''live_scores'', 30),
      (''player_stats'', 1800),
      (''team_stats'', 3600),
      (''schedules'', 7200),
      (''injury_reports'', 600)]"

fun sport_multipliers :: "SportType \<rightharpoonup> real" where
  "sport_multipliers MLB = Some (binary64 (12 / 10))"
| "sport_multipliers NBA = Some (binary64 (8 / 10))"
| "sport_multipliers NFL = Some (binary64 (15 / 10))"
| "sport_multipliers NHL = Some (binary64 1)"
| "sport_multipliers (OtherSport n) = None"

definition get_sport_specific_cache_ttl :: "SportType \<Rightarrow> string \<Rightarrow> int" where
  "get_sport_specific_cache_ttl sport data_type =
     (let base_ttl = (case base_ttls data_type of None \<Rightarrow> 3600 | Some b \<Rightarrow> b);
          sport_multiplier = (case sport_multipliers sport of None \<Rightarrow> binary64 1 | Some m \<Rightarrow> m)
      in py_int (binary64 (real_of_int base_ttl * sport_multiplier)))"

section \<open>Integration metrics\<close>

text \<open>
  The dictionary \<^verbatim>\<open>integration_metrics\<close> has five fixed keys, set in
  \<^verbatim>\<open>__init__\<close> and never added to or removed: a record. Counters are Python
  integers, the average is a float.
\<close>

record IntegrationMetrics =
  total_requests :: int
  cache_hits :: int
  data_quality_violations :: int
  cross_source_discrepancies :: int
  avg_response_time :: pyfloat

definition initial_metrics :: IntegrationMetrics where
  "initial_metrics =
     \<lparr> total_requests = 0, cache_hits = 0, data_quality_violations = 0,
       cross_source_discrepancies = 0, avg_response_time = Finite 0 \<rparr>"

text \<open>
  \<^verbatim>\<open>_update_response_time_metric\<close>, in float arithmetic: the product with the
  converted \<^verbatim>\<open>total_requests - 1\<close>, the sum, and the quotient by the converted
  \<^verbatim>\<open>total_requests\<close>, each rounded.
\<close>

definition update_response_time_metric ::
  "pyfloat \<Rightarrow> IntegrationMetrics \<Rightarrow> py_error + IntegrationMetrics" where
  "update_response_time_metric response_time m =
     (let current_avg = avg_response_time m;
          n = total_requests m
      in if n > 1
         then bind_e (float_of_int (n - 1)) (\<lambda>k.
              let total = float_add (float_mul current_avg k) response_time in
              bind_e (float_of_int n) (\<lambda>d.
              bind_e (float_div total d) (\<lambda>a.
                Inr (m\<lparr>avg_response_time := a\<rparr>))))
         else Inr (m\<lparr>avg_response_time := response_time\<rparr>))"

text \<open>
  One timed request: the counter is incremented first (as the public read methods
  do on entry), then the sample is folded in. A sequence of requests stops at the
  first one that raises.
\<close>

definition record_sample :: "IntegrationMetrics \<Rightarrow> pyfloat \<Rightarrow> py_error + IntegrationMetrics" where
  "record_sample m x =
     update_response_time_metric x (m\<lparr>total_requests := total_requests m + 1\<rparr>)"

fun record_samples :: "IntegrationMetrics \<Rightarrow> pyfloat list \<Rightarrow> py_error + IntegrationMetrics" where
  "record_samples m [] = Inr m"
| "record_samples m (x # xs) = bind_e (record_sample m x) (\<lambda>m'. record_samples m' xs)"

text \<open>
  The update rule as the specification words it, over exact numbers: with the
  counter \<open>n\<close> already incremented for the sample \<open>x\<close>, the new average is \<open>x\<close>
  when \<open>n = 1\<close> and \<open>(a * (n - 1) + x) / n\<close> when \<open>n > 1\<close>.
\<close>

definition exact_update :: "real \<Rightarrow> nat \<Rightarrow> real \<Rightarrow> real" where
  "exact_update a n x = (if n > 1 then (a * real (n - 1) + x) / real n else x)"

fun exact_average_from :: "real \<Rightarrow> nat \<Rightarrow> real list \<Rightarrow> real" where
  "exact_average_from a n [] = a"
| "exact_average_from a n (x # xs) = exact_average_from (exact_update a (Suc n) x) (Suc n) xs"

definition exact_average :: "real list \<Rightarrow> real" where
  "exact_average xs = exact_average_from 0 0 xs"

section \<open>Strings\<close>

text \<open>
  \<^verbatim>\<open>needle in haystack\<close> on strings: the needle occurs as a contiguous run.
\<close>

fun py_in_str :: "string \<Rightarrow> string \<Rightarrow> bool" where
  "py_in_str n [] = (n = [])"
| "py_in_str n (c # cs) = (prefix n (c # cs) \<or> py_in_str n cs)"

text \<open>\<^verbatim>\<open>str.lower()\<close>, on the ASCII letters.\<close>

definition lower_char :: "char \<Rightarrow> char" where
  "lower_char c =
     (case map_of (zip ''ABCDEFGHIJKLMNOPQRSTUVWXYZ'' ''abcdefghijklmnopqrstuvwxyz'') c of
        None \<Rightarrow> c
      | Some l \<Rightarrow> l)"

definition py_lower :: "string \<Rightarrow> string" where
  "py_lower s = map lower_char s"

section \<open>Collaborators and the clock\<close>

text \<open>
  \<^verbatim>\<open>DataSourceType\<close> is imported from the quality monitor; the manager names the
  members \<^verbatim>\<open>SPORTRADAR\<close> and \<^verbatim>\<open>ODDS_API\<close>.
\<close>

datatype DataSourceType = SPORTRADAR | ODDS_API | OtherSource string

text \<open>
  Modelled from the spec: the enumeration \<^verbatim>\<open>AlertSeverity\<close> of the quality
  monitor, whose declaration is not among the sources. Its members are the
  severities of the spec's data model (WARN, ERROR, CRITICAL); the value strings of
  ERROR and CRITICAL are the two that \<^verbatim>\<open>_handle_quality_violation\<close> tests for.
\<close>

datatype AlertSeverity = WARN | ERROR | CRITICAL

fun severity_value :: "AlertSeverity \<Rightarrow> string" where
  "severity_value WARN = ''warning''"
| "severity_value ERROR = ''error''"
| "severity_value CRITICAL = ''critical''"

record QualityViolation =
  rule_name :: string
  severity :: AlertSeverity
  data_source :: DataSourceType
  field_path :: string
  description :: string

text \<open>
  Everything the manager calls but does not define is a field of the environment:
  the \<^verbatim>\<open>.value\<close> of the imported enumerations, Python's \<^verbatim>\<open>str\<close> on a payload,
  the readings of the clock (finite floats), and the outcome of each call to a
  collaborator (the feed client \<^verbatim>\<open>sportradar_service\<close>, the cache service
  \<^verbatim>\<open>intelligent_cache_service\<close>, the quality monitor \<^verbatim>\<open>data_quality_monitor\<close>).
  A call returns a value (\<open>Inr\<close>) or raises (\<open>Inl\<close>). The calls to the
  collaborators are awaited: there a cancellation can arrive, so they raise
  anything. \<^verbatim>\<open>str\<close> is a synchronous built-in and raises an \<^verbatim>\<open>Exception\<close>, if
  it raises.
\<close>

record env =
  sport_value :: "SportType \<Rightarrow> string"
  source_value :: "DataSourceType \<Rightarrow> string"
  py_str :: "pyval \<Rightarrow> py_exception + string"
  now_iso :: string
  time_start :: real
  time_end :: real
  feed_get_all_sports_data :: "SportType list \<Rightarrow> py_error + pyval"
  feed_get_player_stats :: "SportType \<Rightarrow> string \<Rightarrow> py_error + pyval"
  feed_get_live_scores :: "SportType \<Rightarrow> py_error + pyval"
  cache_get :: "string \<Rightarrow> py_error + pyval"
  cache_get_sport_data :: "string \<Rightarrow> string \<Rightarrow> string \<Rightarrow> string option \<Rightarrow> py_error + pyval"
  cache_set_sport_data ::
    "string \<Rightarrow> string \<Rightarrow> string \<Rightarrow> pyval \<Rightarrow> string option \<Rightarrow> py_error + unit"
  cache_warm_cache :: "string list \<Rightarrow> py_error + unit"
  validate_data :: "DataSourceType \<Rightarrow> pyval \<Rightarrow> py_error + QualityViolation list"
  update_timeliness_metric :: "DataSourceType \<Rightarrow> py_error + unit"
  detect_anomalies :: "DataSourceType \<Rightarrow> pyval \<Rightarrow> py_error + pyval list"

section \<open>Cache events and the state of the manager\<close>

text \<open>
  The keyword arguments of one call of \<^verbatim>\<open>event_driven_cache.emit_event\<close>; an
  argument that the call does not pass is \<open>None\<close>.
\<close>

record CacheEvent =
  event_type :: EventType
  source :: string
  sport :: "string option"
  game_id :: "pyval option"
  data_category :: "string option"
  payload :: "pydict option"
  invalidation_scope :: InvalidationScope

text \<open>
  The manager's own fields, and what it has handed to its collaborators: the events
  given to the event bus, the entries written to the cache service and the warming
  requests, each oldest first. \<open>world\<close> is whatever else the registered alert
  handlers act on.

  \<^verbatim>\<open>quality_alert_handlers\<close> is the list object created by \<^verbatim>\<open>__init__\<close>; the
  manager never rebinds the attribute and changes the list in place only. The
  field holds the contents of that list, each callable by its identity.
\<close>

type_synonym callable_id = nat

record 'w system =
  initialized :: bool
  active_sports :: "SportType list"
  quality_alert_handlers :: "callable_id list"
  integration_metrics :: IntegrationMetrics
  emitted_events :: "CacheEvent list"
  cache_writes :: "(string \<times> string \<times> string \<times> pyval \<times> string option) list"
  warm_requests :: "string list list"
  world :: 'w

text \<open>
  Modelled from the spec: \<^verbatim>\<open>event_driven_cache.emit_event\<close>, whose code is not
  among the sources. The bus accepts the event and returns; by the dispatch
  contract a failing listener does not affect the emitting call. What the listeners
  of the bus do with an event, and when, is not part of the call.
\<close>

definition emit_event :: "CacheEvent \<Rightarrow> 'w system \<Rightarrow> 'w system" where
  "emit_event e s = s\<lparr>emitted_events := emitted_events s @ [e]\<rparr>"

section \<open>Sport attribution\<close>

text \<open>
  \<^verbatim>\<open>_extract_sport_from_data\<close>. The dictionary \<^verbatim>\<open>sport_indicators\<close> is iterated
  in insertion order; the first sport with an indicator occurring in the lower-cased
  text of the payload is returned. Any exception, which only \<^verbatim>\<open>str(data)\<close> can
  raise, gives \<^verbatim>\<open>None\<close>.
\<close>

definition sport_indicators :: "(string \<times> string list) list" where
  "sport_indicators =
     [(''mlb'', [''baseball'', ''mlb'']),
      (''nba'', [''basketball'', ''nba'']),
      (''nfl'', [''football'', ''nfl'', ''american_football'']),
      (''nhl'', [''hockey'', ''nhl'', ''ice_hockey''])]"

fun first_sport :: "(string \<times> string list) list \<Rightarrow> string \<Rightarrow> string option" where
  "first_sport [] data_str = None"
| "first_sport ((name, indicators) # rest) data_str =
     (if list_ex (\<lambda>indicator. py_in_str indicator data_str) indicators
      then Some name
      else first_sport rest data_str)"

definition extract_sport_from_data :: "env \<Rightarrow> pydict \<Rightarrow> string option" where
  "extract_sport_from_data env data =
     (case py_str env (PDict data) of
        Inl e \<Rightarrow> None
      | Inr s \<Rightarrow> first_sport sport_indicators (py_lower s))"

section \<open>Event derivation from raw payloads\<close>

text \<open>
  \<^verbatim>\<open>for x in v\<close>: a list gives its elements, a dictionary its keys, a string its
  characters; the other values are not iterable.
\<close>

fun py_iter :: "pyval \<Rightarrow> py_error + pyval list" where
  "py_iter (PList xs) = Inr xs"
| "py_iter (PDict d) = Inr (map (\<lambda>kv. PStr (fst kv)) d)"
| "py_iter (PStr s) = Inr (map (\<lambda>c. PStr [c]) s)"
| "py_iter v = Inl (Exc (TypeError ''object is not iterable''))"

definition score_update_event :: "env \<Rightarrow> DataSourceType \<Rightarrow> pydict \<Rightarrow> pyval \<Rightarrow> pyval \<Rightarrow> pyval \<Rightarrow> CacheEvent" where
  "score_update_event env ds data gid home_score away_score =
     \<lparr> event_type = SCORE_UPDATE,
       source = source_value env ds,
       sport = extract_sport_from_data env data,
       game_id = Some gid,
       data_category = None,
       payload = Some [(''home_score'', home_score), (''away_score'', away_score)],
       invalidation_scope = RELATED \<rparr>"

definition game_state_event :: "env \<Rightarrow> DataSourceType \<Rightarrow> pydict \<Rightarrow> pyval \<Rightarrow> pyval \<Rightarrow> CacheEvent" where
  "game_state_event env ds data gid game_status =
     \<lparr> event_type = GAME_STATE_CHANGE,
       source = source_value env ds,
       sport = extract_sport_from_data env data,
       game_id = Some gid,
       data_category = None,
       payload = Some [(''new_state'', game_status)],
       invalidation_scope = PATTERN \<rparr>"

definition odds_change_event :: "env \<Rightarrow> DataSourceType \<Rightarrow> pydict \<Rightarrow> CacheEvent" where
  "odds_change_event env ds data =
     \<lparr> event_type = ODDS_CHANGE,
       source = source_value env ds,
       sport = extract_sport_from_data env data,
       game_id = None,
       data_category = Some ''odds'',
       payload = Some [(''timestamp'', PStr (now_iso env))],
       invalidation_scope = PATTERN \<rparr>"

definition injury_report_event :: "env \<Rightarrow> DataSourceType \<Rightarrow> pydict \<Rightarrow> CacheEvent" where
  "injury_report_event env ds data =
     \<lparr> event_type = INJURY_REPORT,
       source = source_value env ds,
       sport = extract_sport_from_data env data,
       game_id = None,
       data_category = Some ''injuries'',
       payload = None,
       invalidation_scope = RELATED \<rparr>"

text \<open>
  The body of the loop over the games. \<^verbatim>\<open>game.get("id")\<close> raises when the
  entry is not a dictionary; a falsy identifier skips the entry.
\<close>

fun emit_game_events ::
  "env \<Rightarrow> DataSourceType \<Rightarrow> pydict \<Rightarrow> pyval \<Rightarrow> 'w system \<Rightarrow> (py_error + unit) \<times> 'w system" where
  "emit_game_events env ds data (PDict game) s =
     (let gid = dict_get game ''id'' in
      if \<not> truthy gid then (Inr (), s)
      else
        let home_score = dict_get game ''home_score'';
            away_score = dict_get game ''away_score'';
            s1 = (if home_score \<noteq> PNone \<or> away_score \<noteq> PNone
                  then emit_event (score_update_event env ds data gid home_score away_score) s
                  else s);
            game_status = dict_get game ''status'';
            s2 = (if truthy game_status
                  then emit_event (game_state_event env ds data gid game_status) s1
                  else s1)
        in (Inr (), s2))"
| "emit_game_events env ds data game s = (Inl (Exc (AttributeError ''object has no attribute 'get' '')), s)"

fun emit_games_loop ::
  "env \<Rightarrow> DataSourceType \<Rightarrow> pydict \<Rightarrow> pyval list \<Rightarrow> 'w system \<Rightarrow> (py_error + unit) \<times> 'w system" where
  "emit_games_loop env ds data [] s = (Inr (), s)"
| "emit_games_loop env ds data (game # games) s =
     (case emit_game_events env ds data game s of
        (Inl e, s') \<Rightarrow> (Inl e, s')
      | (Inr u, s') \<Rightarrow> emit_games_loop env ds data games s')"

text \<open>The guarded block of \<^verbatim>\<open>_emit_cache_events_from_data\<close>.\<close>

definition emit_cache_events_body ::
  "env \<Rightarrow> DataSourceType \<Rightarrow> pydict \<Rightarrow> 'w system \<Rightarrow> (py_error + unit) \<times> 'w system" where
  "emit_cache_events_body env ds data s =
     (case (if dict_contains ''games'' data
            then (case py_iter (dict_get_default data ''games'' (PList [])) of
                    Inl e \<Rightarrow> (Inl e, s)
                  | Inr games \<Rightarrow> emit_games_loop env ds data games s)
            else (Inr (), s)) of
        (Inl e, s1) \<Rightarrow> (Inl e, s1)
      | (Inr u, s1) \<Rightarrow>
          let s2 = (if dict_contains ''odds'' data \<or> dict_contains ''bookmakers'' data
                    then emit_event (odds_change_event env ds data) s1 else s1);
              s3 = (if dict_contains ''injuries'' data \<or> dict_contains ''injury_reports'' data
                    then emit_event (injury_report_event env ds data) s2 else s2)
          in (Inr (), s3))"

text \<open>
  \<^verbatim>\<open>try: ... except Exception as e: logger.error(...)\<close>: an instance of
  \<^verbatim>\<open>Exception\<close> is logged and dropped, anything else that is raised passes; what
  the block did before raising stays done.
\<close>

definition swallow :: "(py_error + unit) \<times> 's \<Rightarrow> (py_error + unit) \<times> 's" where
  "swallow r =
     (case r of
        (Inl (Exc e), s) \<Rightarrow> (Inr (), s)
      | (Inl e, s) \<Rightarrow> (Inl e, s)
      | (Inr u, s) \<Rightarrow> (Inr u, s))"

definition emit_cache_events_from_data ::
  "env \<Rightarrow> DataSourceType \<Rightarrow> pydict \<Rightarrow> 'w system \<Rightarrow> (py_error + unit) \<times> 'w system" where
  "emit_cache_events_from_data env ds data s = swallow (emit_cache_events_body env ds data s)"

section \<open>Quality-violation handling\<close>

text \<open>
  A registered alert handler is an arbitrary coroutine: it may change anything,
  the manager's fields included (so also the list of handlers it was taken from),
  and it returns or raises. What a callable does when called is given by a table
  from the identities to the behaviours.
  \<^verbatim>\<open>register_quality_alert_handler\<close> appends to the list of handlers.
\<close>

type_synonym 'w handler = "QualityViolation \<Rightarrow> 'w system \<Rightarrow> (py_error + unit) \<times> 'w system"

type_synonym 'w callables = "callable_id \<Rightarrow> 'w handler"

definition register_quality_alert_handler :: "callable_id \<Rightarrow> 'w system \<Rightarrow> 'w system" where
  "register_quality_alert_handler h s =
     s\<lparr>quality_alert_handlers := quality_alert_handlers s @ [h]\<rparr>"

definition quality_violation_event :: "env \<Rightarrow> QualityViolation \<Rightarrow> CacheEvent" where
  "quality_violation_event env v =
     \<lparr> event_type = DATA_SOURCE_UPDATE,
       source = source_value env (data_source v),
       sport = None,
       game_id = None,
       data_category = Some (field_path v),
       payload = Some [(''violation'', PStr (rule_name v)),
                       (''severity'', PStr (severity_value (severity v)))],
       invalidation_scope = PATTERN \<rparr>"

text \<open>
  The loop \<^verbatim>\<open>for handler in self.quality_alert_handlers\<close>, each call in its own
  \<^verbatim>\<open>try\<close>. The iterator of a list keeps a position and reads the list as it is
  at each step: the loop goes on while the position is within the current list, so
  it sees what a handler appends or removes, and with handlers that keep appending
  it does not end (the result is then \<open>None\<close>).
\<close>

partial_function (option) notify_handlers ::
  "'w callables \<Rightarrow> QualityViolation \<Rightarrow> nat \<Rightarrow> 'w system
     \<Rightarrow> ((py_error + unit) \<times> 'w system) option" where
  "notify_handlers call v i s =
     (if i < length (quality_alert_handlers s)
      then (case swallow (call (quality_alert_handlers s ! i) v s) of
              (Inl e, s') \<Rightarrow> Some (Inl e, s')
            | (Inr u, s') \<Rightarrow> notify_handlers call v (Suc i) s')
      else Some (Inr (), s))"

definition count_violation :: "'w system \<Rightarrow> 'w system" where
  "count_violation s =
     s\<lparr>integration_metrics := (integration_metrics s)
          \<lparr>data_quality_violations := data_quality_violations (integration_metrics s) + 1\<rparr>\<rparr>"

text \<open>\<^verbatim>\<open>_handle_quality_violation\<close>.\<close>

definition handle_quality_violation ::
  "'w callables \<Rightarrow> env \<Rightarrow> QualityViolation \<Rightarrow> 'w system
     \<Rightarrow> ((py_error + unit) \<times> 'w system) option" where
  "handle_quality_violation call env v s =
     (let s1 = count_violation s;
          s2 = (if severity_value (severity v) \<in> set [''error'', ''critical'']
                then emit_event (quality_violation_event env v) s1
                else s1)
      in notify_handlers call v 0 s2)"

section \<open>Read path\<close>

text \<open>
  What a public read method returns: the envelope
  \<^verbatim>\<open>{"data": ..., "metadata": {...}}\<close> or the payload \<^verbatim>\<open>{"error": message}\<close>.
\<close>

datatype metaval = MStr string | MFloat pyfloat | MInt int | MBool bool

datatype response =
    Envelope pyval "(string \<times> metaval) list"
  | ErrorPayload string

definition increment_total_requests :: "'w system \<Rightarrow> 'w system" where
  "increment_total_requests s =
     s\<lparr>integration_metrics := (integration_metrics s)
          \<lparr>total_requests := total_requests (integration_metrics s) + 1\<rparr>\<rparr>"

text \<open>
  \<^verbatim>\<open>_monitor_incoming_data\<close>: the whole body is guarded, so it returns unless
  the quality monitor raises something that is no \<^verbatim>\<open>Exception\<close>.
\<close>

definition monitor_incoming_data ::
  "env \<Rightarrow> DataSourceType \<Rightarrow> pyval \<Rightarrow> 'w system \<Rightarrow> (py_error + unit) \<times> 'w system" where
  "monitor_incoming_data env ds data s =
     swallow
       (case validate_data env ds data of
          Inl e \<Rightarrow> (Inl e, s)
        | Inr violations \<Rightarrow>
            let s1 = (if violations \<noteq> []
                      then s\<lparr>integration_metrics := (integration_metrics s)
                              \<lparr>data_quality_violations :=
                                 data_quality_violations (integration_metrics s)
                                   + int (length violations)\<rparr>\<rparr>
                      else s)
            in (case update_timeliness_metric env ds of
                  Inl e \<Rightarrow> (Inl e, s1)
                | Inr u \<Rightarrow>
                    (case detect_anomalies env ds data of
                       Inl e \<Rightarrow> (Inl e, s1)
                     | Inr anomalies \<Rightarrow> (Inr (), s1))))"

text \<open>\<^verbatim>\<open>v.items()\<close> and \<^verbatim>\<open>v.values()\<close>: methods of a dictionary only.\<close>

fun py_items :: "pyval \<Rightarrow> py_error + (string \<times> pyval) list" where
  "py_items (PDict d) = Inr d"
| "py_items v = Inl (Exc (AttributeError ''object has no attribute 'items' ''))"

fun py_values :: "pyval \<Rightarrow> py_error + pyval list" where
  "py_values (PDict d) = Inr (map snd d)"
| "py_values v = Inl (Exc (AttributeError ''object has no attribute 'values' ''))"

text \<open>
  The monitoring loop of \<^verbatim>\<open>get_comprehensive_sports_data\<close>:
  \<^verbatim>\<open>if data and any(data.values())\<close> raises on a truthy value that is not a
  dictionary.
\<close>

fun monitor_sports_loop ::
  "env \<Rightarrow> (string \<times> pyval) list \<Rightarrow> 'w system \<Rightarrow> (py_error + unit) \<times> 'w system" where
  "monitor_sports_loop env [] s = (Inr (), s)"
| "monitor_sports_loop env ((sport_name, data) # rest) s =
     (if \<not> truthy data then monitor_sports_loop env rest s
      else
        (case py_values data of
           Inl e \<Rightarrow> (Inl e, s)
         | Inr vs \<Rightarrow>
             if list_ex truthy vs
             then (case monitor_incoming_data env SPORTRADAR data s of
                     (Inl e, s') \<Rightarrow> (Inl e, s')
                   | (Inr u, s') \<Rightarrow> monitor_sports_loop env rest s')
             else monitor_sports_loop env rest s))"

definition sports_to_fetch :: "SportType option \<Rightarrow> 'w system \<Rightarrow> SportType list" where
  "sports_to_fetch sp s = (case sp of Some x \<Rightarrow> [x] | None \<Rightarrow> active_sports s)"

text \<open>
  The elapsed time \<^verbatim>\<open>time.time() - start_time\<close>, a float difference, and its
  product with the integer 1000, which converts exactly.
\<close>

definition elapsed :: "env \<Rightarrow> pyfloat" where
  "elapsed env = float_sub (Finite (time_end env)) (Finite (time_start env))"

definition milliseconds :: "pyfloat \<Rightarrow> pyfloat" where
  "milliseconds t = float_mul t (Finite 1000)"

text \<open>The guarded block of \<^verbatim>\<open>get_comprehensive_sports_data\<close>.\<close>

definition comprehensive_body ::
  "env \<Rightarrow> SportType option \<Rightarrow> 'w system \<Rightarrow> (py_error + response) \<times> 'w system" where
  "comprehensive_body env sp s =
     (let s1 = increment_total_requests s in
      case feed_get_all_sports_data env (sports_to_fetch sp s1) of
        Inl e \<Rightarrow> (Inl e, s1)
      | Inr sports_data \<Rightarrow>
          (case py_items sports_data of
             Inl e \<Rightarrow> (Inl e, s1)
           | Inr entries \<Rightarrow>
               (case monitor_sports_loop env entries s1 of
                  (Inl e, s2) \<Rightarrow> (Inl e, s2)
                | (Inr u, s2) \<Rightarrow>
                    let response_time = elapsed env in
                    (case update_response_time_metric response_time (integration_metrics s2) of
                       Inl e \<Rightarrow> (Inl e, s2)
                     | Inr metrics \<Rightarrow>
                         (Inr (Envelope sports_data
                                 [(''source'', MStr ''sportradar''),
                                  (''timestamp'', MStr (now_iso env)),
                                  (''response_time_ms'', MFloat (milliseconds response_time)),
                                  (''cache_status'', MStr ''api'')]),
                          s2\<lparr>integration_metrics := metrics\<rparr>)))))"

text \<open>\<^verbatim>\<open>_get_fallback_data\<close>; nothing guards its cache lookups.\<close>

definition unavailable_placeholder :: pyval where
  "unavailable_placeholder =
     PDict [(''live_scores'', PNone), (''schedules'', PNone), (''injuries'', PNone),
            (''error'', PStr ''Data source unavailable, using fallback'')]"

definition fallback_cache_key :: "env \<Rightarrow> SportType \<Rightarrow> string" where
  "fallback_cache_key env sp = ''fallback_sports_data_'' @ sport_value env sp"

fun fallback_loop :: "env \<Rightarrow> SportType list \<Rightarrow> pydict \<Rightarrow> py_error + pydict" where
  "fallback_loop env [] fallback_data = Inr fallback_data"
| "fallback_loop env (sp # rest) fallback_data =
     (case cache_get env (fallback_cache_key env sp) of
        Inl e \<Rightarrow> Inl e
      | Inr cached \<Rightarrow>
          fallback_loop env rest
            (dict_set fallback_data (sport_value env sp)
               (if truthy cached then cached else unavailable_placeholder)))"

definition get_fallback_data :: "env \<Rightarrow> SportType list \<Rightarrow> py_error + response" where
  "get_fallback_data env sports =
     (case fallback_loop env sports [] of
        Inl e \<Rightarrow> Inl e
      | Inr fallback_data \<Rightarrow>
          Inr (Envelope (PDict fallback_data)
                 [(''source'', MStr ''fallback''),
                  (''timestamp'', MStr (now_iso env)),
                  (''cache_status'', MStr ''fallback'')]))"

text \<open>
  \<^verbatim>\<open>get_comprehensive_sports_data\<close>: the guarded block, and in the clause
  \<^verbatim>\<open>except Exception\<close> the unguarded call of the fallback.
\<close>

definition get_comprehensive_sports_data ::
  "env \<Rightarrow> SportType option \<Rightarrow> 'w system \<Rightarrow> (py_error + response) \<times> 'w system" where
  "get_comprehensive_sports_data env sp s =
     (case comprehensive_body env sp s of
        (Inr r, s') \<Rightarrow> (Inr r, s')
      | (Inl (Exc e), s') \<Rightarrow> (get_fallback_data env (sports_to_fetch sp s'), s')
      | (Inl e, s') \<Rightarrow> (Inl e, s'))"

text \<open>\<^verbatim>\<open>get_enhanced_player_data\<close>: the guarded block, then the method.\<close>

definition player_cache_key :: "env \<Rightarrow> SportType \<Rightarrow> string \<Rightarrow> string" where
  "player_cache_key env sp player_id =
     ''enhanced_player_'' @ sport_value env sp @ ''_'' @ player_id"

definition enhanced_player_body ::
  "env \<Rightarrow> SportType \<Rightarrow> string \<Rightarrow> string option \<Rightarrow> 'w system
     \<Rightarrow> (py_error + response) \<times> 'w system" where
  "enhanced_player_body env sp player_id user_id s =
     (let s1 = increment_total_requests s;
          key = player_cache_key env sp player_id in
      case cache_get_sport_data env (sport_value env sp) ''player_stats'' key user_id of
        Inl e \<Rightarrow> (Inl e, s1)
      | Inr cached \<Rightarrow>
          if truthy cached
          then (Inr (Envelope cached
                       [(''source'', MStr ''cache''),
                        (''timestamp'', MStr (now_iso env)),
                        (''cache_status'', MStr ''hit''),
                        (''cache_type'', MStr ''sport_aware'')]),
                s1\<lparr>integration_metrics := (integration_metrics s1)
                     \<lparr>cache_hits := cache_hits (integration_metrics s1) + 1\<rparr>\<rparr>)
          else
            (case feed_get_player_stats env sp player_id of
               Inl e \<Rightarrow> (Inl e, s1)
             | Inr player_data \<Rightarrow>
                 if truthy player_data
                 then
                   (case validate_data env SPORTRADAR (PDict [(''player'', player_data)]) of
                      Inl e \<Rightarrow> (Inl e, s1)
                    | Inr violations \<Rightarrow>
                        (case cache_set_sport_data env (sport_value env sp) ''player_stats''
                                key player_data user_id of
                           Inl e \<Rightarrow> (Inl e, s1)
                         | Inr u \<Rightarrow>
                             let s2 = s1\<lparr>cache_writes := cache_writes s1 @
                                          [(sport_value env sp, ''player_stats'', key,
                                            player_data, user_id)]\<rparr>;
                                 response_time = elapsed env
                             in (case update_response_time_metric response_time
                                        (integration_metrics s2) of
                                   Inl e \<Rightarrow> (Inl e, s2)
                                 | Inr metrics \<Rightarrow>
                                     (Inr (Envelope player_data
                                             [(''source'', MStr ''sportradar''),
                                              (''timestamp'', MStr (now_iso env)),
                                              (''response_time_ms'',
                                                 MFloat (milliseconds response_time)),
                                              (''cache_status'', MStr ''miss''),
                                              (''quality_violations'',
                                                 MInt (if violations \<noteq> []
                                                       then int (length violations) else 0)),
                                              (''cache_type'', MStr ''sport_aware'')]),
                                      s2\<lparr>integration_metrics := metrics\<rparr>))))
                 else (Inr (ErrorPayload ''Player data not available''), s1)))"

definition get_enhanced_player_data ::
  "env \<Rightarrow> SportType \<Rightarrow> string \<Rightarrow> string option \<Rightarrow> 'w system
     \<Rightarrow> (py_error + response) \<times> 'w system" where
  "get_enhanced_player_data env sp player_id user_id s =
     (case enhanced_player_body env sp player_id user_id s of
        (Inr r, s') \<Rightarrow> (Inr r, s')
      | (Inl (Exc e), s') \<Rightarrow> (Inr (ErrorPayload (str_of_exception e)), s')
      | (Inl e, s') \<Rightarrow> (Inl e, s'))"

text \<open>
  \<^verbatim>\<open>_warm_related_caches\<close>. The four key patterns are f-strings over the sport,
  the game identifier and the identifiers of the two teams; building them raises
  when a team entry is not a dictionary or \<^verbatim>\<open>str\<close> fails.
\<close>

definition str_in_fstring :: "env \<Rightarrow> pyval \<Rightarrow> py_error + string" where
  "str_in_fstring env v = (case py_str env v of Inl e \<Rightarrow> Inl (Exc e) | Inr t \<Rightarrow> Inr t)"

definition team_id_str :: "env \<Rightarrow> pydict \<Rightarrow> string \<Rightarrow> py_error + string" where
  "team_id_str env game k =
     bind_e (py_get (dict_get_default game k (PDict [])) ''id'') (\<lambda>tid. str_in_fstring env tid)"

definition warm_patterns :: "env \<Rightarrow> SportType \<Rightarrow> pydict \<Rightarrow> pyval \<Rightarrow> py_error + string list" where
  "warm_patterns env sp game gid =
     bind_e (str_in_fstring env gid) (\<lambda>g.
     bind_e (team_id_str env game ''home_team'') (\<lambda>home.
     bind_e (team_id_str env game ''away_team'') (\<lambda>away.
       Inr [''game_details_'' @ sport_value env sp @ ''_'' @ g,
            ''player_props_'' @ sport_value env sp @ ''_'' @ g,
            ''team_stats_'' @ sport_value env sp @ ''_'' @ home,
            ''team_stats_'' @ sport_value env sp @ ''_'' @ away])))"

fun warm_game :: "env \<Rightarrow> SportType \<Rightarrow> pyval \<Rightarrow> 'w system \<Rightarrow> (py_error + unit) \<times> 'w system" where
  "warm_game env sp (PDict game) s =
     (let gid = dict_get game ''id'' in
      if truthy gid
      then (case warm_patterns env sp game gid of
              Inl e \<Rightarrow> (Inl e, s)
            | Inr patterns \<Rightarrow>
                (case cache_warm_cache env patterns of
                   Inl e \<Rightarrow> (Inl e, s)
                 | Inr u \<Rightarrow> (Inr (), s\<lparr>warm_requests := warm_requests s @ [patterns]\<rparr>)))
      else (Inr (), s))"
| "warm_game env sp game s = (Inl (Exc (AttributeError ''object has no attribute 'get' '')), s)"

fun warm_games_loop ::
  "env \<Rightarrow> SportType \<Rightarrow> pyval list \<Rightarrow> 'w system \<Rightarrow> (py_error + unit) \<times> 'w system" where
  "warm_games_loop env sp [] s = (Inr (), s)"
| "warm_games_loop env sp (game # games) s =
     (case warm_game env sp game s of
        (Inl e, s') \<Rightarrow> (Inl e, s')
      | (Inr u, s') \<Rightarrow> warm_games_loop env sp games s')"

fun py_get_default :: "pyval \<Rightarrow> string \<Rightarrow> pyval \<Rightarrow> py_error + pyval" where
  "py_get_default (PDict d) k dflt = Inr (dict_get_default d k dflt)"
| "py_get_default v k dflt = Inl (Exc (AttributeError ''object has no attribute 'get' ''))"

definition warm_related_caches ::
  "env \<Rightarrow> SportType \<Rightarrow> pyval \<Rightarrow> 'w system \<Rightarrow> (py_error + unit) \<times> 'w system" where
  "warm_related_caches env sp live_data s =
     swallow
       (case py_get_default live_data ''games'' (PList []) of
          Inl e \<Rightarrow> (Inl e, s)
        | Inr games_value \<Rightarrow>
            (case py_iter games_value of
               Inl e \<Rightarrow> (Inl e, s)
             | Inr games \<Rightarrow> warm_games_loop env sp games s))"

text \<open>\<^verbatim>\<open>get_live_scores_with_quality_monitoring\<close>.\<close>

definition live_scores_body ::
  "env \<Rightarrow> SportType \<Rightarrow> 'w system \<Rightarrow> (py_error + response) \<times> 'w system" where
  "live_scores_body env sp s =
     (case feed_get_live_scores env sp of
        Inl e \<Rightarrow> (Inl e, s)
      | Inr live_data \<Rightarrow>
          if truthy live_data
          then
            (case monitor_incoming_data env SPORTRADAR live_data s of
               (Inl e, s1) \<Rightarrow> (Inl e, s1)
             | (Inr u, s1) \<Rightarrow>
                 (case warm_related_caches env sp live_data s1 of
                    (Inl e, s2) \<Rightarrow> (Inl e, s2)
                  | (Inr u, s2) \<Rightarrow>
                      (Inr (Envelope live_data
                              [(''source'', MStr ''sportradar_live''),
                               (''timestamp'', MStr (now_iso env)),
                               (''quality_checked'', MBool True)]),
                       s2)))
          else (Inr (ErrorPayload ''Live scores not available''), s))"

definition get_live_scores_with_quality_monitoring ::
  "env \<Rightarrow> SportType \<Rightarrow> 'w system \<Rightarrow> (py_error + response) \<times> 'w system" where
  "get_live_scores_with_quality_monitoring env sp s =
     (case live_scores_body env sp s of
        (Inr r, s') \<Rightarrow> (Inr r, s')
      | (Inl (Exc e), s') \<Rightarrow> (Inr (ErrorPayload (str_of_exception e)), s')
      | (Inl e, s') \<Rightarrow> (Inl e, s'))"

section \<open>Python's text of a value\<close>

text \<open>
  \<^verbatim>\<open>repr\<close> and \<^verbatim>\<open>str\<close> on the fragment, for strings of printable ASCII
  characters and the usual control characters: the text that
  \<^verbatim>\<open>_extract_sport_from_data\<close> scans when the payload holds nothing else.
\<close>

definition digit_char :: "nat \<Rightarrow> char" where
  "digit_char d = ''0123456789abcdef'' ! d"

fun show_nat :: "nat \<Rightarrow> string" where
  "show_nat n = (if n < 10 then [digit_char n] else show_nat (n div 10) @ [digit_char (n mod 10)])"

declare show_nat.simps [simp del]

definition show_int :: "int \<Rightarrow> string" where
  "show_int i = (if i < 0 then ''-'' @ show_nat (nat (- i)) else show_nat (nat i))"

definition escape_char :: "char \<Rightarrow> char \<Rightarrow> string" where
  "escape_char q c =
     (if c = CHR 0x5C then [CHR 0x5C, CHR 0x5C]
      else if c = q then [CHR 0x5C, q]
      else if c = CHR 0x0A then [CHR 0x5C, CHR ''n'']
      else if c = CHR 0x0D then [CHR 0x5C, CHR ''r'']
      else if c = CHR 0x09 then [CHR 0x5C, CHR ''t'']
      else if (of_char c :: nat) < 32 \<or> (of_char c :: nat) \<ge> 127
        then [CHR 0x5C, CHR ''x'', digit_char (of_char c div 16), digit_char (of_char c mod 16)]
      else [c])"

definition py_repr_str :: "string \<Rightarrow> string" where
  "py_repr_str s =
     (let q = (if CHR 0x27 \<in> set s \<and> CHR 0x22 \<notin> set s then CHR 0x22 else CHR 0x27)
      in [q] @ concat (map (escape_char q) s) @ [q])"

fun join_strs :: "string \<Rightarrow> string list \<Rightarrow> string" where
  "join_strs sep [] = []"
| "join_strs sep [x] = x"
| "join_strs sep (x # y # r) = x @ sep @ join_strs sep (y # r)"

fun py_repr :: "pyval \<Rightarrow> string" where
  "py_repr PNone = ''None''"
| "py_repr (PBool b) = (if b then ''True'' else ''False'')"
| "py_repr (PInt i) = show_int i"
| "py_repr (PStr s) = py_repr_str s"
| "py_repr (PList xs) = ''['' @ join_strs '', '' (map py_repr xs) @ '']''"
| "py_repr (PDict d) =
     ''{'' @ join_strs '', '' (map (\<lambda>kv. py_repr_str (fst kv) @ '': '' @ py_repr (snd kv)) d) @ ''}''"

fun py_str_of :: "pyval \<Rightarrow> string" where
  "py_str_of (PStr s) = s"
| "py_str_of v = py_repr v"

section \<open>Sample inputs\<close>

text \<open>The manager as \<^verbatim>\<open>__init__\<close> leaves it, with nothing handed out yet.\<close>

definition initial_system :: "'w \<Rightarrow> 'w system" where
  "initial_system w =
     \<lparr> initialized = False,
       active_sports = [MLB, NBA, NFL, NHL],
       quality_alert_handlers = [],
       integration_metrics = initial_metrics,
       emitted_events = [],
       cache_writes = [],
       warm_requests = [],
       world = w \<rparr>"

text \<open>
  An environment in which every collaborator answers: the feed returns one
  scheduled game per requested sport, the cache is empty, the monitor finds
  nothing.
\<close>

fun sample_sport_value :: "SportType \<Rightarrow> string" where
  "sample_sport_value MLB = ''mlb''"
| "sample_sport_value NBA = ''nba''"
| "sample_sport_value NFL = ''nfl''"
| "sample_sport_value NHL = ''nhl''"
| "sample_sport_value (OtherSport n) = py_lower n"

fun sample_source_value :: "DataSourceType \<Rightarrow> string" where
  "sample_source_value SPORTRADAR = ''sportradar''"
| "sample_source_value ODDS_API = ''odds_api''"
| "sample_source_value (OtherSource n) = py_lower n"

definition sample_sports_data :: "SportType list \<Rightarrow> pyval" where
  "sample_sports_data sports =
     PDict (map (\<lambda>sp. (sample_sport_value sp,
                        PDict [(''live_scores'', PNone),
                               (''schedules'', PList [PDict [(''id'', PStr ''g1'')]])]))
                sports)"

definition sample_env :: env where
  "sample_env =
     \<lparr> sport_value = sample_sport_value,
       source_value = sample_source_value,
       py_str = (\<lambda>v. Inr (py_str_of v)),
       now_iso = ''2025-01-01T00:00:00+00:00'',
       time_start = 100,
       time_end = 100.25,
       feed_get_all_sports_data = (\<lambda>sports. Inr (sample_sports_data sports)),
       feed_get_player_stats = (\<lambda>sp player_id. Inr (PDict [(''id'', PStr player_id)])),
       feed_get_live_scores = (\<lambda>sp. Inr (PDict [(''games'', PList [PDict [(''id'', PStr ''g1'')]])])),
       cache_get = (\<lambda>key. Inr PNone),
       cache_get_sport_data = (\<lambda>sv category key user_id. Inr PNone),
       cache_set_sport_data = (\<lambda>sv category key v user_id. Inr ()),
       cache_warm_cache = (\<lambda>patterns. Inr ()),
       validate_data = (\<lambda>ds data. Inr []),
       update_timeliness_metric = (\<lambda>ds. Inr ()),
       detect_anomalies = (\<lambda>ds data. Inr []) \<rparr>"






text \<open>
  Alert handlers acting on a list of numbers: each appends its number. The first
  kind returns, the second raises an \<^verbatim>\<open>Exception\<close>, the third is cancelled, the
  fourth registers another handler before it returns. In the table of callables,
  2 and 7 are of the second kind, 4 of the third, 6 of the fourth (it registers 3),
  every other of the first.
\<close>

definition logging_handler :: "nat \<Rightarrow> nat list handler" where
  "logging_handler k v s = (Inr (), s\<lparr>world := world s @ [k]\<rparr>)"

definition failing_handler :: "nat \<Rightarrow> nat list handler" where
  "failing_handler k v s = (Inl (Exc (UpstreamError ''handler failed'')), s\<lparr>world := world s @ [k]\<rparr>)"

definition cancelled_handler :: "nat \<Rightarrow> nat list handler" where
  "cancelled_handler k v s = (Inl CancelledError, s\<lparr>world := world s @ [k]\<rparr>)"

definition recruiting_handler :: "nat \<Rightarrow> callable_id \<Rightarrow> nat list handler" where
  "recruiting_handler k h v s =
     (Inr (), register_quality_alert_handler h (s\<lparr>world := world s @ [k]\<rparr>))"

definition sample_callables :: "nat list callables" where
  "sample_callables k =
     (if k = 2 \<or> k = 7 then failing_handler k
      else if k = 4 then cancelled_handler k
      else if k = 6 then recruiting_handler k 3
      else logging_handler k)"

text \<open>A fresh manager after the registration of the given callables, in order.\<close>

definition manager_with :: "callable_id list \<Rightarrow> nat list system" where
  "manager_with hs = foldl (\<lambda>s h. register_quality_alert_handler h s) (initial_system []) hs"

definition sample_violation :: "AlertSeverity \<Rightarrow> QualityViolation" where
  "sample_violation sev =
     \<lparr> rule_name = ''score_range'', severity = sev, data_source = SPORTRADAR,
       field_path = ''games.home_score'', description = ''score out of range'' \<rparr>"

text \<open>A payload whose text names two sports, hockey first.\<close>

definition two_sports_payload :: pydict where
  "two_sports_payload = [(''league'', PStr ''NHL''), (''note'', PStr ''Baseball'')]"

text \<open>
  A games list with a record without scores, a record with an away score only, and
  an entry that is not a record.
\<close>

definition away_only_game :: pydict where
  "away_only_game = [(''id'', PStr ''g2''), (''away_score'', PInt 1)]"

definition mixed_games_payload :: pydict where
  "mixed_games_payload =
     [(''games'', PList ([PDict [(''id'', PStr ''g0'')]] @ PDict away_only_game # [PStr ''junk'']))]"

text \<open>A game whose home score is present and null, and no away score.\<close>

definition null_score_game :: pydict where
  "null_score_game = [(''id'', PStr ''g1''), (''home_score'', PNone)]"

definition null_score_payload :: pydict where
  "null_score_payload = [(''games'', PList [PDict null_score_game])]"

text \<open>The games payload of the spec's testable properties.\<close>

definition g1_payload :: pydict where
  "g1_payload =
     [(''games'',
       PList [PDict [(''id'', PStr ''g1''), (''home_score'', PInt 3),
                     (''away_score'', PInt 2), (''status'', PStr ''live'')]])]"

section \<open>Theorems\<close>

subsection \<open>Guarded blocks\<close>

lemma swallow_snd [simp]: "snd (swallow r) = snd r"
  by (cases r) (auto simp: swallow_def split: sum.splits py_error.splits)

lemma swallow_Inr [simp]: "swallow (Inr u, s) = (Inr u, s)"
  by (simp add: swallow_def)

lemma swallow_Exc [simp]: "swallow (Inl (Exc e), s) = (Inr (), s)"
  by (simp add: swallow_def)

lemma swallow_passes: "\<not> is_exception e \<Longrightarrow> swallow (Inl e, s) = (Inl e, s)"
  by (cases e) (simp_all add: swallow_def)

lemma swallow_cases:
  "swallow (r, s) = (if (\<exists>e. r = Inl e \<and> \<not> is_exception e) then (r, s) else (Inr (), s))"
  by (cases r; cases "projl r") (auto simp: swallow_def)

subsection \<open>Rounding to binary64\<close>

lemma bit_length_bounds:
  "0 < n \<Longrightarrow> 2 ^ (bit_length n - 1) \<le> n \<and> n < 2 ^ bit_length n"
proof (induction n rule: bit_length.induct)
  case (1 n)
  show ?case
  proof (cases "n div 2 = 0")
    case True
    with 1(2) have "n = Suc 0" by (simp add: div_eq_0_iff)
    then show ?thesis by (simp add: bit_length.simps[of "Suc 0"] bit_length.simps[of 0])
  next
    case False
    then have pos: "0 < n div 2" by simp
    from 1(1)[OF _ pos] 1(2) have ih: "2 ^ (bit_length (n div 2) - 1) \<le> n div 2" "n div 2 < 2 ^ bit_length (n div 2)"
      by auto
    have bl: "bit_length n = Suc (bit_length (n div 2))"
      using 1(2) by (subst bit_length.simps) simp
    have blpos: "0 < bit_length (n div 2)"
      using pos by (subst bit_length.simps) simp
    then obtain k where k: "bit_length (n div 2) = Suc k" by (cases "bit_length (n div 2)") auto
    from ih k have a: "2 ^ k \<le> n div 2" and b: "n div 2 < 2 ^ Suc k" by simp_all
    have "2 * 2 ^ k \<le> n" using a by linarith
    moreover have "n < 2 * 2 ^ Suc k" using b by linarith
    ultimately show ?thesis unfolding bl k by simp
  qed
qed

lemma pow2_powi: "pow2 e = 2 powi e"
  by (simp add: pow2_def power_int_def inverse_eq_divide power_one_over)

text \<open>The exponent found by counting bits is the binary exponent.\<close>

lemma floor_log2_bounds:
  assumes "0 < x"
  shows "pow2 (floor_log2 x) \<le> x \<and> x < pow2 (floor_log2 x + 1)"
proof (cases "1 \<le> x")
  case True
  define n where "n = nat \<lfloor>x\<rfloor>"
  from True have npos: "0 < n" by (simp add: n_def)
  from bit_length_bounds[OF npos]
  have lo: "2 ^ (bit_length n - 1) \<le> n" and hi: "n < 2 ^ bit_length n"
    by simp_all
  have blpos: "0 < bit_length n" using npos by (subst bit_length.simps) simp
  have e: "floor_log2 x = int (bit_length n - 1)"
    using True blpos by (simp add: floor_log2_def n_def)
  have e1: "floor_log2 x + 1 = int (bit_length n)" using e blpos by simp
  have rn: "real n = real_of_int \<lfloor>x\<rfloor>" using True by (simp add: n_def)
  have nx: "real n \<le> x" unfolding rn by linarith
  have xn: "x < real n + 1" unfolding rn by linarith
  have p1: "(2::real) ^ (bit_length n - 1) \<le> real n"
    using of_nat_mono[OF lo, where ?'a = real] by simp
  have pe: "pow2 (floor_log2 x) = 2 ^ (bit_length n - 1)"
    unfolding e by (simp add: pow2_def)
  have a: "pow2 (floor_log2 x) \<le> x" unfolding pe using p1 nx by linarith
  have "n + 1 \<le> 2 ^ bit_length n" using hi by linarith
  from of_nat_mono[OF this, where ?'a = real]
  have p2: "real n + 1 \<le> 2 ^ bit_length n" by simp
  have pe1: "pow2 (floor_log2 x + 1) = 2 ^ bit_length n"
    unfolding e1 by (simp add: pow2_def)
  have b: "x < pow2 (floor_log2 x + 1)" unfolding pe1 using p2 xn by linarith
  from a b show ?thesis ..
next
  case False
  with assms have x1: "x < 1" by simp
  define y where "y = 1 / x"
  have y1: "1 < y" using assms x1 by (simp add: y_def)
  have xy: "x * y = 1" using assms by (simp add: y_def)
  define m where "m = nat \<lceil>y\<rceil> - 1"
  have c2: "2 \<le> \<lceil>y\<rceil>" using y1 by linarith
  then have mpos: "0 < m" by (simp add: m_def)
  have "int m = \<lceil>y\<rceil> - 1" unfolding m_def using c2 by arith
  then have "real_of_int (int m) = real_of_int (\<lceil>y\<rceil> - 1)" by simp
  then have rm: "real m = real_of_int \<lceil>y\<rceil> - 1" by simp
  have m_lt: "real m < y" unfolding rm by linarith
  have y_le: "y \<le> real m + 1" unfolding rm by linarith
  define k where "k = bit_length m"
  from bit_length_bounds[OF mpos]
  have lo: "2 ^ (k - 1) \<le> m" and hi: "m < 2 ^ k" by (simp_all add: k_def)
  have kpos: "0 < k" unfolding k_def using mpos by (subst bit_length.simps) simp
  have e: "floor_log2 x = - int k" using False by (simp add: floor_log2_def k_def m_def y_def)
  have "m + 1 \<le> 2 ^ k" using hi by linarith
  from of_nat_mono[OF this, where ?'a = real]
  have "real m + 1 \<le> 2 ^ k" by simp
  with y_le have yk: "y \<le> 2 ^ k" by linarith
  have "x * y \<le> x * 2 ^ k" using yk assms by (intro mult_left_mono) simp_all
  then have one_le: "1 \<le> x * 2 ^ k" unfolding xy .
  have pk: "pow2 (floor_log2 x) = 1 / 2 ^ k"
    unfolding e using kpos by (simp add: pow2_def)
  have a: "pow2 (floor_log2 x) \<le> x" unfolding pk using one_le by (simp add: field_simps)
  have "(2::real) ^ (k - 1) \<le> real m"
    using of_nat_mono[OF lo, where ?'a = real] by simp
  with m_lt have "2 ^ (k - 1) < y" by linarith
  then have "x * 2 ^ (k - 1) < x * y" using assms by (intro mult_strict_left_mono) simp_all
  then have lt: "x * 2 ^ (k - 1) < 1" unfolding xy .
  have pk1: "pow2 (floor_log2 x + 1) = 1 / 2 ^ (k - 1)"
  proof (cases "k = 1")
    case True
    then show ?thesis unfolding e by (simp add: pow2_def)
  next
    case False
    with kpos have "1 < k" by simp
    then have "nat (int k - 1) = k - 1" by simp
    with \<open>1 < k\<close> show ?thesis unfolding e by (simp add: pow2_def)
  qed
  have b: "x < pow2 (floor_log2 x + 1)" unfolding pk1 using lt by (simp add: field_simps)
  from a b show ?thesis ..
qed

lemma round_half_even_close: "\<bar>q - real_of_int (round_half_even q)\<bar> \<le> 1 / 2"
proof -
  have "real_of_int \<lfloor>q\<rfloor> \<le> q" "q < real_of_int \<lfloor>q\<rfloor> + 1" by linarith+
  then show ?thesis by (auto simp: round_half_even_def Let_def)
qed

text \<open>
  The rounded number is an integer multiple of the unit in the last place, with a
  significand of 53 bits, and it is within half a unit of the exact number.
\<close>

lemma binary64_close:
  assumes "x \<noteq> 0"
  shows "\<bar>binary64 x - x\<bar> \<le> pow2 (floor_log2 \<bar>x\<bar> - 52) / 2"
proof -
  let ?e = "floor_log2 \<bar>x\<bar>"
  let ?u = "pow2 (?e - 52)"
  let ?n = "round_half_even (\<bar>x\<bar> * pow2 (52 - ?e))"
  have upos: "0 < ?u" by (simp add: pow2_powi)
  have inv: "pow2 (52 - ?e) = 1 / ?u"
    by (simp add: pow2_powi power_int_diff field_simps)
  have b: "binary64 x = sgn x * real_of_int ?n * ?u"
    using assms by (simp add: binary64_def Let_def)
  define d where "d = \<bar>x\<bar> / ?u - real_of_int ?n"
  have d: "\<bar>d\<bar> \<le> 1 / 2"
    using round_half_even_close[of "\<bar>x\<bar> * pow2 (52 - ?e)"] unfolding inv d_def by simp
  have "\<bar>x\<bar> - real_of_int ?n * ?u = d * ?u"
    using upos by (simp add: d_def left_diff_distrib)
  then have "\<bar>\<bar>x\<bar> - real_of_int ?n * ?u\<bar> = \<bar>d\<bar> * ?u"
    using upos by (simp add: abs_mult)
  also have "\<dots> \<le> (1 / 2) * ?u"
    using d upos by (intro mult_right_mono) simp_all
  finally have "\<bar>\<bar>x\<bar> - real_of_int ?n * ?u\<bar> \<le> ?u / 2" by simp
  moreover have "\<bar>binary64 x - x\<bar> = \<bar>\<bar>x\<bar> - real_of_int ?n * ?u\<bar>"
    unfolding b using assms by (cases "x > 0") (auto simp: sgn_if abs_if)
  ultimately show ?thesis by simp
qed

lemma round_half_even_between:
  "\<lfloor>q\<rfloor> \<le> round_half_even q \<and> round_half_even q \<le> \<lfloor>q\<rfloor> + 1"
  by (simp add: round_half_even_def Let_def)

lemma round_half_even_mono_int:
  assumes "real_of_int a \<le> q" and "q \<le> real_of_int b"
  shows "a \<le> round_half_even q \<and> round_half_even q \<le> b"
proof -
  have fl: "a \<le> \<lfloor>q\<rfloor>" using assms(1) by (simp add: le_floor_iff)
  have fb: "\<lfloor>q\<rfloor> \<le> b" using assms(2) by (simp add: floor_le_iff)
  have upper: "round_half_even q \<le> b"
  proof (cases "\<lfloor>q\<rfloor> = b")
    case True
    have "real_of_int \<lfloor>q\<rfloor> \<le> q" by linarith
    with True assms(2) have "q - real_of_int \<lfloor>q\<rfloor> = 0" by linarith
    then have "round_half_even q = \<lfloor>q\<rfloor>" by (simp add: round_half_even_def Let_def)
    with True show ?thesis by simp
  next
    case False
    with fb have "\<lfloor>q\<rfloor> + 1 \<le> b" by linarith
    with round_half_even_between[of q] show ?thesis by linarith
  qed
  from fl round_half_even_between[of q] have "a \<le> round_half_even q" by linarith
  with upper show ?thesis by simp
qed

lemma binary64_significand:
  assumes "x \<noteq> 0"
  shows "2 ^ 52 \<le> round_half_even (\<bar>x\<bar> * pow2 (52 - floor_log2 \<bar>x\<bar>))
       \<and> round_half_even (\<bar>x\<bar> * pow2 (52 - floor_log2 \<bar>x\<bar>)) \<le> 2 ^ 53"
proof -
  let ?e = "floor_log2 \<bar>x\<bar>"
  let ?s = "pow2 (52 - ?e)"
  have spos: "0 < ?s" by (simp add: pow2_powi)
  from assms have "0 < \<bar>x\<bar>" by simp
  from floor_log2_bounds[OF this]
  have lo: "pow2 ?e \<le> \<bar>x\<bar>" and hi: "\<bar>x\<bar> < pow2 (?e + 1)" by simp_all
  have "pow2 ?e * ?s = 2 ^ 52"
    by (simp add: pow2_powi power_int_diff)
  moreover have "pow2 ?e * ?s \<le> \<bar>x\<bar> * ?s"
    using lo spos by (intro mult_right_mono) simp_all
  ultimately have a: "real_of_int (2 ^ 52) \<le> \<bar>x\<bar> * ?s" by simp
  have "pow2 (?e + 1) * ?s = 2 ^ 53"
    by (simp add: pow2_powi power_int_diff power_int_add)
  moreover have "\<bar>x\<bar> * ?s < pow2 (?e + 1) * ?s"
    using hi spos by (intro mult_strict_right_mono) simp_all
  ultimately have b: "\<bar>x\<bar> * ?s \<le> real_of_int (2 ^ 53)" by simp
  from round_half_even_mono_int[OF a b] show ?thesis .
qed

subsection \<open>Cache lifetime\<close>

lemma bit_length_numeral: "bit_length (numeral k) = Suc (bit_length (numeral k div 2))"
  by (subst bit_length.simps) simp

lemma bit_length_0: "bit_length 0 = 0"
  by (subst bit_length.simps) simp

lemma bit_length_1: "bit_length 1 = 1"
  by (subst bit_length.simps) (simp add: bit_length_0)

lemma bit_length_Suc_0: "bit_length (Suc 0) = 1"
  using bit_length_1 by simp

lemmas binary64_eval =
  binary64_def floor_log2_def pow2_def round_half_even_def Let_def
  bit_length_numeral bit_length_0 bit_length_1 bit_length_Suc_0

text \<open>The floats that the four literals denote.\<close>

lemma multiplier_floats:
  "binary64 (12 / 10) = 5404319552844595 / 4503599627370496"
  "binary64 (8 / 10) = 3602879701896397 / 4503599627370496"
  "binary64 (15 / 10) = 3 / 2"
  "binary64 1 = 1"
  by (simp_all add: binary64_eval)

text \<open>
  Every float product of the table is an integer: the exact product of the base and
  the decimal multiplier (1.2 is 6/5, 0.8 is 4/5, 1.5 is 3/2).
\<close>

lemma mlb_products:
  "binary64 (30 * binary64 (6 / 5)) = 36"
  "binary64 (1800 * binary64 (6 / 5)) = 2160"
  "binary64 (3600 * binary64 (6 / 5)) = 4320"
  "binary64 (7200 * binary64 (6 / 5)) = 8640"
  "binary64 (600 * binary64 (6 / 5)) = 720"
  by (simp_all add: binary64_eval)

lemma nba_products:
  "binary64 (30 * binary64 (4 / 5)) = 24"
  "binary64 (1800 * binary64 (4 / 5)) = 1440"
  "binary64 (3600 * binary64 (4 / 5)) = 2880"
  "binary64 (7200 * binary64 (4 / 5)) = 5760"
  "binary64 (600 * binary64 (4 / 5)) = 480"
  by (simp_all add: binary64_eval)

lemma nfl_products:
  "binary64 (30 * binary64 (3 / 2)) = 45"
  "binary64 (1800 * binary64 (3 / 2)) = 2700"
  "binary64 (3600 * binary64 (3 / 2)) = 5400"
  "binary64 (7200 * binary64 (3 / 2)) = 10800"
  "binary64 (600 * binary64 (3 / 2)) = 900"
  by (simp_all add: binary64_eval)

lemma unit_products:
  "binary64 (30 * binary64 1) = 30"
  "binary64 (1800 * binary64 1) = 1800"
  "binary64 (3600 * binary64 1) = 3600"
  "binary64 (7200 * binary64 1) = 7200"
  "binary64 (600 * binary64 1) = 600"
  by (simp_all add: binary64_eval)

lemma float_product_exact:
  assumes "b \<in> {30, 1800, 3600, 7200, 600}"
  shows "py_int (binary64 (real_of_int b * binary64 (12 / 10))) = py_int (real_of_int b * (12 / 10))"
    and "py_int (binary64 (real_of_int b * binary64 (8 / 10))) = py_int (real_of_int b * (8 / 10))"
    and "py_int (binary64 (real_of_int b * binary64 (15 / 10))) = py_int (real_of_int b * (15 / 10))"
    and "py_int (binary64 (real_of_int b * binary64 1)) = py_int (real_of_int b * 1)"
  using assms
  by (auto simp: mlb_products nba_products nfl_products unit_products py_int_def)

lemma base_lookup:
  "(case base_ttls cat of None \<Rightarrow> 3600 | Some b \<Rightarrow> b) =
     (if cat = ''live_scores'' then 30
      else if cat = ''player_stats'' then 1800
      else if cat = ''team_stats'' then 3600
      else if cat = ''schedules'' then 7200
      else if cat = ''injury_reports'' then 600
      else 3600)"
  by (simp add: base_ttls_def)

lemma base_in_table:
  "(if cat = ''live_scores'' then 30
      else if cat = ''player_stats'' then 1800
      else if cat = ''team_stats'' then 3600
      else if cat = ''schedules'' then 7200
      else if cat = ''injury_reports'' then 600
      else 3600) \<in> {30, 1800, 3600, 7200, 600 :: int}"
  by simp

text \<open>
  C7. For every sport and every data category the lifetime is the truncated product
  of the category's base (30, 1800, 3600, 7200, 600; 3600 for an unknown category)
  and the sport's multiplier (MLB 1.2, NBA 0.8, NFL 1.5, NHL 1.0; 1.0 for an unknown
  sport): the float computation of the code gives the integer part of the exact
  product. In particular NBA live scores live 24 seconds and NFL schedules 10800.
\<close>

theorem ttl_is_truncated_product:
  "get_sport_specific_cache_ttl sp cat =
     py_int (real_of_int
               (if cat = ''live_scores'' then 30
                else if cat = ''player_stats'' then 1800
                else if cat = ''team_stats'' then 3600
                else if cat = ''schedules'' then 7200
                else if cat = ''injury_reports'' then 600
                else 3600)
             * (case sp of MLB \<Rightarrow> 12 / 10 | NBA \<Rightarrow> 8 / 10 | NFL \<Rightarrow> 15 / 10
                         | NHL \<Rightarrow> 1 | OtherSport n \<Rightarrow> 1))
   \<and> get_sport_specific_cache_ttl NBA ''live_scores'' = 24
   \<and> get_sport_specific_cache_ttl NFL ''schedules'' = 10800"
proof -
  let ?b = "if cat = ''live_scores'' then 30
                else if cat = ''player_stats'' then 1800
                else if cat = ''team_stats'' then 3600
                else if cat = ''schedules'' then 7200
                else if cat = ''injury_reports'' then 600
                else (3600 :: int)"
  have unfolded: "get_sport_specific_cache_ttl sp cat =
      py_int (binary64 (real_of_int ?b
                * (case sport_multipliers sp of None \<Rightarrow> binary64 1 | Some m \<Rightarrow> m)))"
    unfolding get_sport_specific_cache_ttl_def Let_def base_lookup ..
  note exact = float_product_exact[OF base_in_table[of cat]]
  have general: "get_sport_specific_cache_ttl sp cat =
     py_int (real_of_int ?b
             * (case sp of MLB \<Rightarrow> 12 / 10 | NBA \<Rightarrow> 8 / 10 | NFL \<Rightarrow> 15 / 10
                         | NHL \<Rightarrow> 1 | OtherSport n \<Rightarrow> 1))"
  proof (cases sp)
    case MLB
    with unfolded exact(1) show ?thesis by simp
  next
    case NBA
    with unfolded exact(2) show ?thesis by simp
  next
    case NFL
    with unfolded exact(3) show ?thesis by simp
  next
    case NHL
    with unfolded exact(4) show ?thesis by simp
  next
    case (OtherSport n)
    with unfolded exact(4) show ?thesis by simp
  qed
  have nba: "get_sport_specific_cache_ttl NBA ''live_scores'' = 24"
    by (simp add: get_sport_specific_cache_ttl_def base_ttls_def nba_products py_int_def)
  have nfl: "get_sport_specific_cache_ttl NFL ''schedules'' = 10800"
    by (simp add: get_sport_specific_cache_ttl_def base_ttls_def nfl_products py_int_def)
  from general nba nfl show ?thesis by blast
qed

subsection \<open>Rounding to a float\<close>

lemma pow2_mono: "a \<le> b \<Longrightarrow> pow2 a \<le> pow2 b"
  by (simp add: pow2_powi power_int_increasing)

lemma pow2_pos: "0 < pow2 a"
  by (simp add: pow2_powi)

lemma round_float_quarter: "round_float (1 / 4) = Finite (1 / 4)"
  by (simp add: round_float_def binary64_eval)

lemma round_float_250: "round_float 250 = Finite 250"
  by (simp add: round_float_def binary64_eval)

lemma elapsed_sample: "elapsed sample_env = Finite (1 / 4)"
  by (simp add: elapsed_def float_sub_def sample_env_def round_float_quarter)

lemma milliseconds_sample: "milliseconds (Finite (1 / 4)) = Finite 250"
  by (simp add: milliseconds_def round_float_250)

subsection \<open>Sport attribution\<close>

lemma py_in_str_sublist: "py_in_str n h \<longleftrightarrow> sublist n h"
  by (induction h) (auto simp: sublist_Cons_right)

lemma first_sport_by_priority:
  "first_sport sport_indicators t =
     (if sublist ''baseball'' t \<or> sublist ''mlb'' t then Some ''mlb''
      else if sublist ''basketball'' t \<or> sublist ''nba'' t then Some ''nba''
      else if sublist ''football'' t \<or> sublist ''nfl'' t \<or> sublist ''american_football'' t
        then Some ''nfl''
      else if sublist ''hockey'' t \<or> sublist ''nhl'' t \<or> sublist ''ice_hockey'' t
        then Some ''nhl''
      else None)"
  by (simp add: sport_indicators_def py_in_str_sublist)

text \<open>
  C10. Whatever \<^verbatim>\<open>str\<close> does on the payload, the heuristic returns: \<^verbatim>\<open>None\<close>
  when \<^verbatim>\<open>str\<close> raises, and otherwise the first of mlb, nba, nfl, nhl (in this
  order) that has a keyword occurring in the lower-cased text, \<^verbatim>\<open>None\<close> when
  none has. The result is always \<^verbatim>\<open>None\<close> or one of the four names.
\<close>

theorem extract_sport_priority_order:
  "extract_sport_from_data env data =
     (case py_str env (PDict data) of
        Inl e \<Rightarrow> None
      | Inr s \<Rightarrow>
          (if sublist ''baseball'' (py_lower s) \<or> sublist ''mlb'' (py_lower s)
             then Some ''mlb''
           else if sublist ''basketball'' (py_lower s) \<or> sublist ''nba'' (py_lower s)
             then Some ''nba''
           else if sublist ''football'' (py_lower s) \<or> sublist ''nfl'' (py_lower s)
                   \<or> sublist ''american_football'' (py_lower s)
             then Some ''nfl''
           else if sublist ''hockey'' (py_lower s) \<or> sublist ''nhl'' (py_lower s)
                   \<or> sublist ''ice_hockey'' (py_lower s)
             then Some ''nhl''
           else None))
   \<and> extract_sport_from_data env data
         \<in> {None, Some ''mlb'', Some ''nba'', Some ''nfl'', Some ''nhl''}"
proof (cases "py_str env (PDict data)")
  case (Inl e)
  then show ?thesis by (simp add: extract_sport_from_data_def)
next
  case (Inr s)
  then have eq: "extract_sport_from_data env data = first_sport sport_indicators (py_lower s)"
    by (simp add: extract_sport_from_data_def)
  show ?thesis
    unfolding eq using Inr by (simp add: first_sport_by_priority)
qed

text \<open>
  Position does not matter: in the text of this payload the hockey keyword comes
  first, and the answer is mlb.
\<close>

lemma two_sports_text:
  "py_str sample_env (PDict two_sports_payload) = Inr ''{'league': 'NHL', 'note': 'Baseball'}''"
  by (simp add: sample_env_def two_sports_payload_def py_repr_str_def escape_char_def Let_def)

theorem extract_sport_priority_order_witness:
  "py_str sample_env (PDict two_sports_payload) = Inr ''{'league': 'NHL', 'note': 'Baseball'}''
   \<and> extract_sport_from_data sample_env two_sports_payload = Some ''mlb''"
proof -
  have low: "py_lower ''{'league': 'NHL', 'note': 'Baseball'}'' = ''{'league': 'nhl', 'note': 'baseball'}''"
    by (simp add: py_lower_def lower_char_def)
  have found: "sublist ''baseball'' ''{'league': 'nhl', 'note': 'baseball'}''"
    by (simp add: py_in_str_sublist[symmetric])
  from extract_sport_priority_order[of sample_env two_sports_payload]
  have "extract_sport_from_data sample_env two_sports_payload = Some ''mlb''"
    unfolding two_sports_text by (simp add: low found)
  with two_sports_text show ?thesis by simp
qed

text \<open>The games payload g1 names no sport.\<close>

lemma g1_payload_text:
  "py_str sample_env (PDict g1_payload)
     = Inr ''{'games': [{'id': 'g1', 'home_score': 3, 'away_score': 2, 'status': 'live'}]}''"
  by (simp add: sample_env_def g1_payload_def py_repr_str_def escape_char_def Let_def
      show_int_def show_nat.simps digit_char_def)

lemma g1_payload_sport:
  "extract_sport_from_data sample_env g1_payload = None"
  by (simp add: extract_sport_from_data_def g1_payload_text py_lower_def lower_char_def
      sport_indicators_def)

subsection \<open>Event derivation\<close>

text \<open>
  C2. For the payload with the single game g1 (home score 3, away score 2, status
  live), from any source and in any state, exactly two events are handed to the bus,
  in this order: a SCORE_UPDATE of scope RELATED for game g1 carrying both scores,
  and a GAME_STATE_CHANGE of scope PATTERN for game g1 with new state live. Nothing
  else is emitted, so no ODDS_CHANGE and no INJURY_REPORT.
\<close>

theorem g1_payload_emits_score_and_state:
  "emit_cache_events_from_data env ds g1_payload s =
     (Inr (),
      s\<lparr>emitted_events := emitted_events s @
          [\<lparr> event_type = SCORE_UPDATE,
             source = source_value env ds,
             sport = extract_sport_from_data env g1_payload,
             game_id = Some (PStr ''g1''),
             data_category = None,
             payload = Some [(''home_score'', PInt 3), (''away_score'', PInt 2)],
             invalidation_scope = RELATED \<rparr>,
           \<lparr> event_type = GAME_STATE_CHANGE,
             source = source_value env ds,
             sport = extract_sport_from_data env g1_payload,
             game_id = Some (PStr ''g1''),
             data_category = None,
             payload = Some [(''new_state'', PStr ''live'')],
             invalidation_scope = PATTERN \<rparr>]\<rparr>)"
  by (simp add: emit_cache_events_from_data_def emit_cache_events_body_def swallow_def
      g1_payload_def dict_contains_def dict_get_default_def dict_get_def emit_event_def
      score_update_event_def game_state_event_def Let_def)

text \<open>From the feed client, into a fresh manager.\<close>

theorem g1_payload_emits_score_and_state_witness:
  "emitted_events (snd (emit_cache_events_from_data sample_env SPORTRADAR g1_payload
                          (initial_system ())))
     = [\<lparr> event_type = SCORE_UPDATE,
          source = ''sportradar'',
          sport = None,
          game_id = Some (PStr ''g1''),
          data_category = None,
          payload = Some [(''home_score'', PInt 3), (''away_score'', PInt 2)],
          invalidation_scope = RELATED \<rparr>,
        \<lparr> event_type = GAME_STATE_CHANGE,
          source = ''sportradar'',
          sport = None,
          game_id = Some (PStr ''g1''),
          data_category = None,
          payload = Some [(''new_state'', PStr ''live'')],
          invalidation_scope = PATTERN \<rparr>]"
proof -
  have src: "source_value sample_env SPORTRADAR = ''sportradar''"
    by (simp add: sample_env_def)
  have none: "emitted_events (initial_system ()) = []"
    by (simp add: initial_system_def)
  show ?thesis
    unfolding g1_payload_emits_score_and_state[of sample_env SPORTRADAR "initial_system ()"]
    by (simp add: src none g1_payload_sport)
qed

lemma emitted_emit_event [simp]: "emitted_events (emit_event e s) = emitted_events s @ [e]"
  by (simp add: emit_event_def)

lemma emit_game_events_grows:
  "set (emitted_events s) \<subseteq> set (emitted_events (snd (emit_game_events env ds data g s)))"
  by (cases g) (auto simp: Let_def)

lemma emit_games_loop_grows:
  "set (emitted_events s) \<subseteq> set (emitted_events (snd (emit_games_loop env ds data gs s)))"
proof (induction gs arbitrary: s)
  case Nil
  then show ?case by simp
next
  case (Cons g gs)
  obtain r s' where step: "emit_game_events env ds data g s = (r, s')"
    by (cases "emit_game_events env ds data g s")
  have sub: "set (emitted_events s) \<subseteq> set (emitted_events s')"
    using emit_game_events_grows[of s env ds data g] step by simp
  show ?case
  proof (cases r)
    case (Inl e)
    with step sub show ?thesis by simp
  next
    case (Inr u)
    with step sub Cons.IH[of s'] show ?thesis by auto
  qed
qed

lemma emit_games_loop_records:
  assumes "\<forall>g \<in> set pre. \<exists>d. g = PDict d"
  shows "emit_games_loop env ds data (pre @ rest) s =
           emit_games_loop env ds data rest (snd (emit_games_loop env ds data pre s))"
  using assms
proof (induction pre arbitrary: s)
  case Nil
  then show ?case by simp
next
  case (Cons g pre)
  then obtain d where g: "g = PDict d" by auto
  obtain s' where step: "emit_game_events env ds data (PDict d) s = (Inr (), s')"
    by (cases "emit_game_events env ds data (PDict d) s") (auto simp: Let_def split: if_splits)
  from Cons have "\<forall>g \<in> set pre. \<exists>d. g = PDict d" by simp
  from Cons.IH[OF this, of s'] show ?case using g step by simp
qed

lemma games_block_grows:
  "(if dict_contains ''games'' data
            then (case py_iter (dict_get_default data ''games'' (PList [])) of
                    Inl e \<Rightarrow> (Inl e, s)
                  | Inr games \<Rightarrow> emit_games_loop env ds data games s)
            else (Inr (), s)) = (r, s1) \<Longrightarrow>
   set (emitted_events s1) \<subseteq> set (emitted_events (snd (emit_cache_events_from_data env ds data s)))"
  by (cases r) (auto simp: emit_cache_events_from_data_def emit_cache_events_body_def Let_def)

text \<open>
  C3, as stated, fails: the game g1 of this payload has a truthy identifier and a
  home-score field, present with the value \<^verbatim>\<open>None\<close>, and nothing is emitted.
\<close>

theorem null_score_emits_nothing:
  "null_score_payload = [(''games'', PList [PDict null_score_game])]
   \<and> truthy (dict_get null_score_game ''id'')
   \<and> dict_contains ''home_score'' null_score_game
   \<and> emitted_events (snd (emit_cache_events_from_data sample_env SPORTRADAR
                            null_score_payload (initial_system ()))) = []"
  by (simp add: null_score_game_def null_score_payload_def dict_contains_def dict_get_def
      emit_cache_events_from_data_def emit_cache_events_body_def swallow_def
      dict_get_default_def initial_system_def)

text \<open>
  C3, as the code has it. In a payload whose \<^verbatim>\<open>games\<close> entry is a list, take a
  game record with a truthy identifier, all entries before it being records. If its
  home score or its away score is not \<^verbatim>\<open>None\<close>, the events handed to the bus
  contain a SCORE_UPDATE of scope RELATED for that game whose payload carries both
  score fields (an absent one as \<^verbatim>\<open>None\<close>).
\<close>

theorem score_update_for_non_null_score:
  assumes games: "map_of data ''games'' = Some (PList (pre @ PDict game # post))"
    and records: "\<forall>g \<in> set pre. \<exists>d. g = PDict d"
    and ident: "truthy (dict_get game ''id'')"
    and score: "dict_get game ''home_score'' \<noteq> PNone \<or> dict_get game ''away_score'' \<noteq> PNone"
  shows "\<lparr> event_type = SCORE_UPDATE,
             source = source_value env ds,
             sport = extract_sport_from_data env data,
             game_id = Some (dict_get game ''id''),
             data_category = None,
             payload = Some [(''home_score'', dict_get game ''home_score''),
                             (''away_score'', dict_get game ''away_score'')],
             invalidation_scope = RELATED \<rparr>
          \<in> set (emitted_events (snd (emit_cache_events_from_data env ds data s)))"
    (is "?ev \<in> _")
proof -
  let ?s0 = "snd (emit_games_loop env ds data pre s)"
  let ?loop = "emit_games_loop env ds data (pre @ PDict game # post) s"
  have split: "?loop = emit_games_loop env ds data (PDict game # post) ?s0"
    by (rule emit_games_loop_records[OF records])
  obtain s1 where one: "emit_game_events env ds data (PDict game) ?s0 = (Inr (), s1)"
    and in1: "?ev \<in> set (emitted_events s1)"
    using ident score
    by (auto simp: Let_def score_update_event_def)
  have "set (emitted_events s1) \<subseteq> set (emitted_events (snd (emit_games_loop env ds data post s1)))"
    by (rule emit_games_loop_grows)
  with in1 split one have inloop: "?ev \<in> set (emitted_events (snd ?loop))" by auto
  obtain r s2 where l: "?loop = (r, s2)" by (cases ?loop)
  have "(if dict_contains ''games'' data
            then (case py_iter (dict_get_default data ''games'' (PList [])) of
                    Inl e \<Rightarrow> (Inl e, s)
                  | Inr games \<Rightarrow> emit_games_loop env ds data games s)
            else (Inr (), s)) = (r, s2)"
    using games l by (simp add: dict_contains_def dict_get_default_def)
  from games_block_grows[OF this] inloop l show ?thesis by auto
qed

text \<open>
  The second game of the mixed payload, from the feed client into a fresh manager:
  the entry after it is not a record, and its event is there.
\<close>

lemma mixed_games_payload_text:
  "py_str sample_env (PDict mixed_games_payload)
     = Inr ''{'games': [{'id': 'g0'}, {'id': 'g2', 'away_score': 1}, 'junk']}''"
  by (simp add: sample_env_def mixed_games_payload_def away_only_game_def py_repr_str_def
      escape_char_def Let_def show_int_def show_nat.simps digit_char_def)

lemma mixed_games_payload_sport:
  "extract_sport_from_data sample_env mixed_games_payload = None"
  by (simp add: extract_sport_from_data_def mixed_games_payload_text py_lower_def lower_char_def
      sport_indicators_def)

theorem score_update_for_non_null_score_witness:
  "map_of mixed_games_payload ''games''
     = Some (PList ([PDict [(''id'', PStr ''g0'')]] @ PDict away_only_game # [PStr ''junk'']))
   \<and> truthy (dict_get away_only_game ''id'')
   \<and> dict_get away_only_game ''away_score'' = PInt 1
   \<and> \<lparr> event_type = SCORE_UPDATE,
         source = ''sportradar'',
         sport = None,
         game_id = Some (PStr ''g2''),
         data_category = None,
         payload = Some [(''home_score'', PNone), (''away_score'', PInt 1)],
         invalidation_scope = RELATED \<rparr>
       \<in> set (emitted_events (snd (emit_cache_events_from_data sample_env SPORTRADAR
                   mixed_games_payload (initial_system ()))))"
proof -
  have games: "map_of mixed_games_payload ''games''
     = Some (PList ([PDict [(''id'', PStr ''g0'')]] @ PDict away_only_game # [PStr ''junk'']))"
    by (simp add: mixed_games_payload_def)
  have records: "\<forall>g \<in> set [PDict [(''id'', PStr ''g0'')]]. \<exists>d. g = PDict d" by simp
  have fields: "dict_get away_only_game ''id'' = PStr ''g2''"
    "dict_get away_only_game ''home_score'' = PNone"
    "dict_get away_only_game ''away_score'' = PInt 1"
    by (simp_all add: dict_get_def away_only_game_def)
  have ident: "truthy (dict_get away_only_game ''id'')"
    by (simp add: fields)
  have score: "dict_get away_only_game ''home_score'' \<noteq> PNone
                 \<or> dict_get away_only_game ''away_score'' \<noteq> PNone"
    by (simp add: fields)
  have src: "source_value sample_env SPORTRADAR = ''sportradar''"
    by (simp add: sample_env_def)
  note concl = score_update_for_non_null_score[OF games records ident score,
      of sample_env SPORTRADAR "initial_system ()",
      unfolded fields src mixed_games_payload_sport]
  show ?thesis
    by (intro conjI games ident fields(3) concl)
qed

subsection \<open>Quality-violation handling\<close>

lemma swallow_exception:
  "(\<forall>e. r = Inl e \<longrightarrow> is_exception e) \<Longrightarrow> swallow (r, s) = (Inr (), s)"
  by (auto simp: swallow_cases)

lemma notify_handlers_done:
  "length (quality_alert_handlers s) \<le> i \<Longrightarrow> notify_handlers call v i s = Some (Inr (), s)"
  by (subst notify_handlers.simps) simp

lemma notify_handlers_step:
  assumes "i < length (quality_alert_handlers s)"
    and "swallow (call (quality_alert_handlers s ! i) v s) = (Inr (), s')"
  shows "notify_handlers call v i s = notify_handlers call v (Suc i) s'"
  using assms by (subst notify_handlers.simps) simp

lemma notify_handlers_stop:
  assumes "i < length (quality_alert_handlers s)"
    and "swallow (call (quality_alert_handlers s ! i) v s) = (Inl e, s')"
  shows "notify_handlers call v i s = Some (Inl e, s')"
  using assms by (subst notify_handlers.simps) simp

lemma notify_handlers_all:
  assumes "quality_alert_handlers s = hs"
    and "\<forall>h \<in> set hs. \<forall>t. quality_alert_handlers (snd (call h v t)) = quality_alert_handlers t"
    and "\<forall>h \<in> set hs. \<forall>t e. fst (call h v t) = Inl e \<longrightarrow> is_exception e"
  shows "notify_handlers call v i s
           = Some (Inr (), foldl (\<lambda>t h. snd (call h v t)) s (drop i hs))"
  using assms(1)
proof (induction "length hs - i" arbitrary: i s)
  case 0
  then show ?case by (simp add: notify_handlers_done)
next
  case (Suc n)
  then have i: "i < length hs" by simp
  let ?h = "hs ! i"
  have h: "?h \<in> set hs" using i by simp
  obtain r s' where c: "call ?h v s = (r, s')" by (cases "call ?h v s")
  have "\<forall>e. r = Inl e \<longrightarrow> is_exception e" using assms(3) h c
    by (metis fst_conv)
  then have sw: "swallow (call (quality_alert_handlers s ! i) v s) = (Inr (), s')"
    using c Suc.prems by (simp add: swallow_exception)
  have hs': "quality_alert_handlers s' = hs"
    using assms(2) h c Suc.prems by (metis snd_conv)
  have n: "n = length hs - Suc i" using Suc.hyps(2) by simp
  have "notify_handlers call v i s = notify_handlers call v (Suc i) s'"
    using i sw Suc.prems by (intro notify_handlers_step) simp_all
  also have "\<dots> = Some (Inr (), foldl (\<lambda>t h. snd (call h v t)) s' (drop (Suc i) hs))"
    by (rule Suc.hyps(1)[OF n hs'])
  also have "foldl (\<lambda>t h. snd (call h v t)) s' (drop (Suc i) hs)
               = foldl (\<lambda>t h. snd (call h v t)) s (drop i hs)"
    using c i by (simp add: Cons_nth_drop_Suc[symmetric])
  finally show ?case .
qed

lemma notify_handlers_returns:
  assumes "quality_alert_handlers s = hs"
    and "\<forall>h \<in> set hs. \<forall>t. quality_alert_handlers (snd (call h v t)) = quality_alert_handlers t"
  shows "\<exists>r s'. notify_handlers call v i s = Some (r, s')"
  using assms(1)
proof (induction "length hs - i" arbitrary: i s)
  case 0
  then show ?case by (simp add: notify_handlers_done)
next
  case (Suc n)
  then have i: "i < length hs" by simp
  let ?h = "hs ! i"
  have h: "?h \<in> set hs" using i by simp
  obtain r s' where sw: "swallow (call (quality_alert_handlers s ! i) v s) = (r, s')"
    by (cases "swallow (call (quality_alert_handlers s ! i) v s)")
  have "s' = snd (call ?h v s)"
    using sw Suc.prems by (metis swallow_snd snd_conv)
  then have hs': "quality_alert_handlers s' = hs"
    using assms(2) h Suc.prems by simp
  have n: "n = length hs - Suc i" using Suc.hyps(2) by simp
  show ?case
  proof (cases r)
    case (Inl e)
    with sw i Suc.prems show ?thesis by (simp add: notify_handlers_stop)
  next
    case (Inr u)
    with sw have "swallow (call (quality_alert_handlers s ! i) v s) = (Inr (), s')" by simp
    then have "notify_handlers call v i s = notify_handlers call v (Suc i) s'"
      using i Suc.prems by (intro notify_handlers_step) simp_all
    with Suc.hyps(1)[OF n hs'] show ?thesis by simp
  qed
qed

text \<open>What every handler keeps, the loop keeps.\<close>

lemma notify_handlers_keeps_aux:
  "notify_handlers call v i s = Some y \<Longrightarrow> (\<forall>h t. P (snd (call h v t)) = P t) \<Longrightarrow> P (snd y) = P s"
proof (induction rule: notify_handlers.raw_induct[rotated 1, consumes 1])
  case (1 notify call v i s y)
  show ?case
  proof (cases "i < length (quality_alert_handlers s)")
    case False
    with 1(2) show ?thesis by auto
  next
    case True
    obtain r1 s1 where sw: "swallow (call (quality_alert_handlers s ! i) v s) = (r1, s1)"
      by (cases "swallow (call (quality_alert_handlers s ! i) v s)")
    have "s1 = snd (call (quality_alert_handlers s ! i) v s)"
      using sw by (metis swallow_snd snd_conv)
    then have keep: "P s1 = P s" using 1(3) by simp
    show ?thesis
    proof (cases r1)
      case (Inl e)
      with 1(2) True sw keep show ?thesis by auto
    next
      case (Inr u)
      with 1(2) True sw have "notify call v (Suc i) s1 = Some y" by simp
      from 1(1)[OF this 1(3)] keep show ?thesis by simp
    qed
  qed
qed

lemma notify_handlers_keeps:
  assumes frame: "\<forall>h t. P (snd (call h v t)) = P t"
    and run: "notify_handlers call v i s = Some (r, s')"
  shows "P s' = P s"
  using notify_handlers_keeps_aux[OF run frame] by simp

lemma notify_handlers_keeps_registered:
  assumes "quality_alert_handlers s = hs"
    and "\<forall>h \<in> set hs. \<forall>t. quality_alert_handlers (snd (call h v t)) = quality_alert_handlers t"
    and "\<forall>h \<in> set hs. \<forall>t. P (snd (call h v t)) = P t"
  shows "\<exists>r s'. notify_handlers call v i s = Some (r, s') \<and> P s' = P s"
  using assms(1)
proof (induction "length hs - i" arbitrary: i s)
  case 0
  then show ?case by (simp add: notify_handlers_done)
next
  case (Suc n)
  then have i: "i < length hs" by simp
  let ?h = "hs ! i"
  have h: "?h \<in> set hs" using i by simp
  obtain r s' where sw: "swallow (call (quality_alert_handlers s ! i) v s) = (r, s')"
    by (cases "swallow (call (quality_alert_handlers s ! i) v s)")
  have s': "s' = snd (call ?h v s)"
    using sw Suc.prems by (metis swallow_snd snd_conv)
  have hs': "quality_alert_handlers s' = hs"
    using assms(2) h Suc.prems s' by simp
  have keep: "P s' = P s" using assms(3) h s' by simp
  have n: "n = length hs - Suc i" using Suc.hyps(2) by simp
  show ?case
  proof (cases r)
    case (Inl e)
    with sw i Suc.prems keep show ?thesis by (simp add: notify_handlers_stop)
  next
    case (Inr u)
    with sw have "swallow (call (quality_alert_handlers s ! i) v s) = (Inr (), s')" by simp
    then have "notify_handlers call v i s = notify_handlers call v (Suc i) s'"
      using i Suc.prems by (intro notify_handlers_step) simp_all
    with Suc.hyps(1)[OF n hs'] keep show ?thesis by simp
  qed
qed

lemma violation_own_step:
  "handle_quality_violation call env v s
     = notify_handlers call v 0
         (s\<lparr>integration_metrics := (integration_metrics s)
              \<lparr>data_quality_violations := data_quality_violations (integration_metrics s) + 1\<rparr>,
            emitted_events := emitted_events s @
              (if severity v = ERROR \<or> severity v = CRITICAL
               then [quality_violation_event env v] else [])\<rparr>)"
  by (cases "severity v")
     (simp_all add: handle_quality_violation_def Let_def emit_event_def count_violation_def)

text \<open>
  C5. Before any handler runs, \<^verbatim>\<open>_handle_quality_violation\<close> has raised the
  violation counter by exactly one, whatever the severity, and has handed to the bus:
  for severity ERROR or CRITICAL exactly one DATA_SOURCE_UPDATE of scope PATTERN whose
  payload carries the rule name and the severity; for WARN nothing. The loop over the
  handlers starts from that state. So when the registered handlers leave the metrics,
  the emitted events and the list of handlers alone (none registered is one such
  case), the call ends with exactly this done; and when no callable touches the
  metrics or the emitted events, this is what the call has done whenever it ends,
  whatever the handlers register.
\<close>

theorem violation_counted_once_and_reported:
  "handle_quality_violation call env v s
     = notify_handlers call v 0
         (s\<lparr>integration_metrics := (integration_metrics s)
              \<lparr>data_quality_violations := data_quality_violations (integration_metrics s) + 1\<rparr>,
            emitted_events := emitted_events s @
              (if severity v = ERROR \<or> severity v = CRITICAL
               then [quality_violation_event env v] else [])\<rparr>)
   \<and> quality_violation_event env v
       = \<lparr> event_type = DATA_SOURCE_UPDATE,
           source = source_value env (data_source v),
           sport = None,
           game_id = None,
           data_category = Some (field_path v),
           payload = Some [(''violation'', PStr (rule_name v)),
                           (''severity'', PStr (severity_value (severity v)))],
           invalidation_scope = PATTERN \<rparr>
   \<and> ((\<forall>h \<in> set (quality_alert_handlers s). \<forall>t.
            integration_metrics (snd (call h v t)) = integration_metrics t
          \<and> emitted_events (snd (call h v t)) = emitted_events t
          \<and> quality_alert_handlers (snd (call h v t)) = quality_alert_handlers t) \<longrightarrow>
        (\<exists>r s'. handle_quality_violation call env v s = Some (r, s')
           \<and> data_quality_violations (integration_metrics s')
               = data_quality_violations (integration_metrics s) + 1
           \<and> emitted_events s'
               = emitted_events s @
                   (if severity v = ERROR \<or> severity v = CRITICAL
                    then [quality_violation_event env v] else [])))
   \<and> ((\<forall>h t. integration_metrics (snd (call h v t)) = integration_metrics t
             \<and> emitted_events (snd (call h v t)) = emitted_events t) \<longrightarrow>
        (\<forall>r s'. handle_quality_violation call env v s = Some (r, s') \<longrightarrow>
             data_quality_violations (integration_metrics s')
               = data_quality_violations (integration_metrics s) + 1
           \<and> emitted_events s'
               = emitted_events s @
                   (if severity v = ERROR \<or> severity v = CRITICAL
                    then [quality_violation_event env v] else [])))"
proof (intro conjI impI allI)
  let ?s0 = "s\<lparr>integration_metrics := (integration_metrics s)
              \<lparr>data_quality_violations := data_quality_violations (integration_metrics s) + 1\<rparr>,
            emitted_events := emitted_events s @
              (if severity v = ERROR \<or> severity v = CRITICAL
               then [quality_violation_event env v] else [])\<rparr>"
  show own: "handle_quality_violation call env v s = notify_handlers call v 0 ?s0"
    by (rule violation_own_step)
  show "quality_violation_event env v
       = \<lparr> event_type = DATA_SOURCE_UPDATE,
           source = source_value env (data_source v),
           sport = None,
           game_id = None,
           data_category = Some (field_path v),
           payload = Some [(''violation'', PStr (rule_name v)),
                           (''severity'', PStr (severity_value (severity v)))],
           invalidation_scope = PATTERN \<rparr>"
    by (simp add: quality_violation_event_def)
  {
    assume reg: "\<forall>h \<in> set (quality_alert_handlers s). \<forall>t.
            integration_metrics (snd (call h v t)) = integration_metrics t
          \<and> emitted_events (snd (call h v t)) = emitted_events t
          \<and> quality_alert_handlers (snd (call h v t)) = quality_alert_handlers t"
    have hs: "quality_alert_handlers ?s0 = quality_alert_handlers s" by simp
    have fixed: "\<forall>h \<in> set (quality_alert_handlers s). \<forall>t.
        quality_alert_handlers (snd (call h v t)) = quality_alert_handlers t"
      using reg by blast
    have frame: "\<forall>h \<in> set (quality_alert_handlers s). \<forall>t.
        (\<lambda>u. (integration_metrics u, emitted_events u)) (snd (call h v t))
          = (\<lambda>u. (integration_metrics u, emitted_events u)) t"
      using reg by simp
    from notify_handlers_keeps_registered[where s = ?s0 and hs = "quality_alert_handlers s"
        and call = call and v = v and i = 0
        and P = "\<lambda>u. (integration_metrics u, emitted_events u)"] hs fixed frame
    obtain r s' where run: "notify_handlers call v 0 ?s0 = Some (r, s')"
      and m: "integration_metrics s' = integration_metrics ?s0"
      and e: "emitted_events s' = emitted_events ?s0"
      by auto
    show "\<exists>r s'. handle_quality_violation call env v s = Some (r, s')
           \<and> data_quality_violations (integration_metrics s')
               = data_quality_violations (integration_metrics s) + 1
           \<and> emitted_events s'
               = emitted_events s @
                   (if severity v = ERROR \<or> severity v = CRITICAL
                    then [quality_violation_event env v] else [])"
      unfolding own using run m e by simp
  }
  {
    fix r s'
    assume all: "\<forall>h t. integration_metrics (snd (call h v t)) = integration_metrics t
             \<and> emitted_events (snd (call h v t)) = emitted_events t"
      and ret: "handle_quality_violation call env v s = Some (r, s')"
    from ret have run: "notify_handlers call v 0 ?s0 = Some (r, s')" unfolding own .
    have m: "integration_metrics s' = integration_metrics ?s0"
      using notify_handlers_keeps[where P = integration_metrics, OF _ run] all by blast
    have e: "emitted_events s' = emitted_events ?s0"
      using notify_handlers_keeps[where P = emitted_events, OF _ run] all by blast
    show "data_quality_violations (integration_metrics s')
               = data_quality_violations (integration_metrics s) + 1"
      unfolding m by simp
    show "emitted_events s'
               = emitted_events s @
                   (if severity v = ERROR \<or> severity v = CRITICAL
                    then [quality_violation_event env v] else [])"
      unfolding e by simp
  }
qed

lemma sample_callables_frame:
  "integration_metrics (snd (sample_callables h v t)) = integration_metrics t"
  "emitted_events (snd (sample_callables h v t)) = emitted_events t"
  by (simp_all add: sample_callables_def logging_handler_def failing_handler_def
      cancelled_handler_def recruiting_handler_def register_quality_alert_handler_def)

lemma sample_callables_fixed:
  "h \<noteq> 6 \<Longrightarrow> quality_alert_handlers (snd (sample_callables h v t)) = quality_alert_handlers t"
  by (simp add: sample_callables_def logging_handler_def failing_handler_def
      cancelled_handler_def)

lemma register_all:
  "quality_alert_handlers (foldl (\<lambda>s h. register_quality_alert_handler h s) s hs)
     = quality_alert_handlers s @ hs"
  by (induction hs rule: rev_induct) (simp_all add: register_quality_alert_handler_def)

lemma manager_with_handlers [simp]: "quality_alert_handlers (manager_with hs) = hs"
  by (simp add: manager_with_def register_all) (simp add: initial_system_def)

text \<open>Two handlers, the second raising, and a critical violation.\<close>

theorem violation_counted_once_and_reported_witness:
  "quality_alert_handlers (manager_with [1, 2]) = [1, 2]
   \<and> (\<forall>h t. integration_metrics (snd (sample_callables h (sample_violation CRITICAL) t))
              = integration_metrics t
            \<and> emitted_events (snd (sample_callables h (sample_violation CRITICAL) t))
              = emitted_events t)
   \<and> (\<forall>t. quality_alert_handlers (snd (sample_callables 1 (sample_violation CRITICAL) t))
              = quality_alert_handlers t)
   \<and> (\<forall>t. quality_alert_handlers (snd (sample_callables 2 (sample_violation CRITICAL) t))
              = quality_alert_handlers t)
   \<and> (\<exists>r s'. handle_quality_violation sample_callables sample_env (sample_violation CRITICAL)
                 (manager_with [1, 2]) = Some (r, s')
         \<and> data_quality_violations (integration_metrics s') = 1
         \<and> emitted_events s'
             = [\<lparr> event_type = DATA_SOURCE_UPDATE,
                  source = ''sportradar'',
                  sport = None,
                  game_id = None,
                  data_category = Some ''games.home_score'',
                  payload = Some [(''violation'', PStr ''score_range''),
                                  (''severity'', PStr ''critical'')],
                  invalidation_scope = PATTERN \<rparr>])"
proof -
  let ?v = "sample_violation CRITICAL"
  let ?s = "manager_with [1, 2]"
  have all: "\<forall>h t. integration_metrics (snd (sample_callables h ?v t)) = integration_metrics t
            \<and> emitted_events (snd (sample_callables h ?v t)) = emitted_events t"
    by (simp add: sample_callables_frame)
  have f1: "\<forall>t. quality_alert_handlers (snd (sample_callables 1 ?v t)) = quality_alert_handlers t"
    by (simp add: sample_callables_fixed)
  have f2: "\<forall>t. quality_alert_handlers (snd (sample_callables 2 ?v t)) = quality_alert_handlers t"
    by (simp add: sample_callables_fixed)
  have reg: "\<forall>h \<in> set (quality_alert_handlers ?s). \<forall>t.
            integration_metrics (snd (sample_callables h ?v t)) = integration_metrics t
          \<and> emitted_events (snd (sample_callables h ?v t)) = emitted_events t
          \<and> quality_alert_handlers (snd (sample_callables h ?v t)) = quality_alert_handlers t"
    using all f1 f2 by simp
  note inst = violation_counted_once_and_reported[of sample_callables sample_env ?v ?s]
  have event: "quality_violation_event sample_env ?v
       = \<lparr> event_type = DATA_SOURCE_UPDATE,
           source = source_value sample_env (data_source ?v),
           sport = None,
           game_id = None,
           data_category = Some (field_path ?v),
           payload = Some [(''violation'', PStr (rule_name ?v)),
                           (''severity'', PStr (severity_value (severity ?v)))],
           invalidation_scope = PATTERN \<rparr>"
    by (rule conjunct1[OF conjunct2[OF inst]])
  have "\<exists>r s'. handle_quality_violation sample_callables sample_env ?v ?s = Some (r, s')
           \<and> data_quality_violations (integration_metrics s')
               = data_quality_violations (integration_metrics ?s) + 1
           \<and> emitted_events s'
               = emitted_events ?s @
                   (if severity ?v = ERROR \<or> severity ?v = CRITICAL
                    then [quality_violation_event sample_env ?v] else [])"
    by (rule mp[OF conjunct1[OF conjunct2[OF conjunct2[OF inst]]] reg])
  then obtain r s' where ret: "handle_quality_violation sample_callables sample_env ?v ?s = Some (r, s')"
    by blast
  have "data_quality_violations (integration_metrics s')
               = data_quality_violations (integration_metrics ?s) + 1
           \<and> emitted_events s'
               = emitted_events ?s @
                   (if severity ?v = ERROR \<or> severity ?v = CRITICAL
                    then [quality_violation_event sample_env ?v] else [])"
    using conjunct2[OF conjunct2[OF conjunct2[OF inst]]] all ret by blast
  then have "data_quality_violations (integration_metrics s') = 1
         \<and> emitted_events s'
             = [\<lparr> event_type = DATA_SOURCE_UPDATE,
                  source = ''sportradar'',
                  sport = None,
                  game_id = None,
                  data_category = Some ''games.home_score'',
                  payload = Some [(''violation'', PStr ''score_range''),
                                  (''severity'', PStr ''critical'')],
                  invalidation_scope = PATTERN \<rparr>]"
    unfolding event
    by (simp add: sample_violation_def sample_env_def manager_with_def initial_system_def
        initial_metrics_def register_quality_alert_handler_def)
  with ret all f1 f2 show ?thesis by (simp del: One_nat_def)
qed

text \<open>The loop reads the list as it is: a handler registered by a handler is called too.\<close>

lemma notify_handlers_sees_registration:
  "handle_quality_violation sample_callables sample_env (sample_violation WARN) (manager_with [6])
     = Some (Inr (),
             (initial_system [])
               \<lparr>quality_alert_handlers := [6, 3],
                 integration_metrics := initial_metrics\<lparr>data_quality_violations := 1\<rparr>,
                 world := [6, 3]\<rparr>)"
  by (simp add: handle_quality_violation_def Let_def count_violation_def sample_violation_def
      notify_handlers.simps manager_with_def register_quality_alert_handler_def
      sample_callables_def recruiting_handler_def logging_handler_def
      initial_system_def initial_metrics_def)

text \<open>
  C6, as stated, fails: with the handlers 1, 4 and 3 registered, the call of handler 4
  is cancelled; \<^verbatim>\<open>asyncio.CancelledError\<close> is no \<^verbatim>\<open>Exception\<close>, the clause
  \<^verbatim>\<open>except Exception\<close> lets it pass, it leaves \<^verbatim>\<open>_handle_quality_violation\<close>, and
  handler 3 is not called.
\<close>

theorem cancelled_handler_stops_the_loop:
  "quality_alert_handlers (manager_with [1, 4, 3]) = [1, 4, 3]
   \<and> sample_callables 4 (sample_violation WARN) (manager_with [1, 4, 3])
       = (Inl CancelledError, (manager_with [1, 4, 3])\<lparr>world := [4]\<rparr>)
   \<and> handle_quality_violation sample_callables sample_env (sample_violation WARN)
         (manager_with [1, 4, 3])
       = Some (Inl CancelledError,
               (manager_with [1, 4, 3])
                 \<lparr>integration_metrics := initial_metrics\<lparr>data_quality_violations := 1\<rparr>,
                   world := [1, 4]\<rparr>)"
  by (simp add: handle_quality_violation_def Let_def count_violation_def sample_violation_def
      notify_handlers.simps manager_with_def register_quality_alert_handler_def
      sample_callables_def cancelled_handler_def logging_handler_def swallow_def
      initial_system_def initial_metrics_def)

text \<open>
  C6, as the code has it. If the registered handlers raise instances of
  \<^verbatim>\<open>Exception\<close> only and leave the list of handlers alone,
  \<^verbatim>\<open>_handle_quality_violation\<close> returns without raising, and its final state is the
  state after its own step followed by the effect of every registered handler, in
  registration order: a handler that raises is followed by the next one, like a
  handler that returns.
\<close>

theorem every_handler_runs:
  assumes excs: "\<forall>h \<in> set (quality_alert_handlers s). \<forall>t e.
                   fst (call h v t) = Inl e \<longrightarrow> is_exception e"
    and fixed: "\<forall>h \<in> set (quality_alert_handlers s). \<forall>t.
                   quality_alert_handlers (snd (call h v t)) = quality_alert_handlers t"
  shows "handle_quality_violation call env v s
           = Some (Inr (),
                   foldl (\<lambda>t h. snd (call h v t))
                     (s\<lparr>integration_metrics := (integration_metrics s)
                          \<lparr>data_quality_violations :=
                             data_quality_violations (integration_metrics s) + 1\<rparr>,
                        emitted_events := emitted_events s @
                          (if severity v = ERROR \<or> severity v = CRITICAL
                           then [quality_violation_event env v] else [])\<rparr>)
                     (quality_alert_handlers s))"
proof -
  let ?s0 = "s\<lparr>integration_metrics := (integration_metrics s)
                          \<lparr>data_quality_violations :=
                             data_quality_violations (integration_metrics s) + 1\<rparr>,
                        emitted_events := emitted_events s @
                          (if severity v = ERROR \<or> severity v = CRITICAL
                           then [quality_violation_event env v] else [])\<rparr>"
  have hs: "quality_alert_handlers ?s0 = quality_alert_handlers s" by simp
  from notify_handlers_all[where s = ?s0 and hs = "quality_alert_handlers s" and i = 0
      and call = call and v = v] hs fixed excs
  show ?thesis unfolding violation_own_step by simp
qed

text \<open>Three handlers, the second raising: all three have run, in order.\<close>

theorem every_handler_runs_witness:
  "quality_alert_handlers (manager_with [1, 2, 3]) = [1, 2, 3]
   \<and> (\<forall>t. sample_callables 1 (sample_violation WARN) t = (Inr (), t\<lparr>world := world t @ [1]\<rparr>))
   \<and> (\<forall>t. sample_callables 2 (sample_violation WARN) t
            = (Inl (Exc (UpstreamError ''handler failed'')), t\<lparr>world := world t @ [2]\<rparr>))
   \<and> (\<forall>t. sample_callables 3 (sample_violation WARN) t = (Inr (), t\<lparr>world := world t @ [3]\<rparr>))
   \<and> handle_quality_violation sample_callables sample_env (sample_violation WARN)
         (manager_with [1, 2, 3])
       = Some (Inr (),
               (manager_with [1, 2, 3])
                 \<lparr>integration_metrics := initial_metrics\<lparr>data_quality_violations := 1\<rparr>,
                   world := [1, 2, 3]\<rparr>)"
proof -
  let ?v = "sample_violation WARN"
  let ?s = "manager_with [1, 2, 3]"
  have c1: "\<forall>t. sample_callables 1 ?v t = (Inr (), t\<lparr>world := world t @ [1]\<rparr>)"
    by (simp add: sample_callables_def logging_handler_def)
  have c2: "\<forall>t. sample_callables 2 ?v t
            = (Inl (Exc (UpstreamError ''handler failed'')), t\<lparr>world := world t @ [2]\<rparr>)"
    by (simp add: sample_callables_def failing_handler_def)
  have c3: "\<forall>t. sample_callables 3 ?v t = (Inr (), t\<lparr>world := world t @ [3]\<rparr>)"
    by (simp add: sample_callables_def logging_handler_def)
  have excs: "\<forall>h \<in> set (quality_alert_handlers ?s). \<forall>t e.
                   fst (sample_callables h ?v t) = Inl e \<longrightarrow> is_exception e"
    using c1 c2 c3 by auto
  have fixed: "\<forall>h \<in> set (quality_alert_handlers ?s). \<forall>t.
                   quality_alert_handlers (snd (sample_callables h ?v t)) = quality_alert_handlers t"
    using c1 c2 c3 by auto
  have res: "handle_quality_violation sample_callables sample_env ?v ?s
       = Some (Inr (),
               ?s\<lparr>integration_metrics := initial_metrics\<lparr>data_quality_violations := 1\<rparr>,
                   world := [1, 2, 3]\<rparr>)"
    unfolding every_handler_runs[where call = sample_callables and v = "?v" and s = "?s"
        and env = sample_env, OF excs fixed]
    using c1 c2 c3
    by (simp add: sample_violation_def manager_with_def initial_system_def initial_metrics_def
        register_quality_alert_handler_def)
  from c1 c2 c3 res show ?thesis by simp
qed

text \<open>
  C9. If no alert handler changes the metrics, then whenever
  \<^verbatim>\<open>_handle_quality_violation\<close> ends, returning or raising, the request counter,
  the cache hits, the cross-source discrepancies and the average response time are
  what they were; of the metrics only the violation counter has changed, by one. The
  call ends when the registered handlers leave the list of handlers alone.
\<close>

theorem violation_changes_only_its_counter:
  assumes frame: "\<forall>h t. integration_metrics (snd (call h v t)) = integration_metrics t"
  shows "(\<forall>r s'. handle_quality_violation call env v s = Some (r, s') \<longrightarrow>
            total_requests (integration_metrics s') = total_requests (integration_metrics s)
          \<and> cache_hits (integration_metrics s') = cache_hits (integration_metrics s)
          \<and> cross_source_discrepancies (integration_metrics s')
              = cross_source_discrepancies (integration_metrics s)
          \<and> avg_response_time (integration_metrics s') = avg_response_time (integration_metrics s)
          \<and> integration_metrics s'
              = (integration_metrics s)\<lparr>data_quality_violations :=
                    data_quality_violations (integration_metrics s) + 1\<rparr>)
       \<and> ((\<forall>h \<in> set (quality_alert_handlers s). \<forall>t.
              quality_alert_handlers (snd (call h v t)) = quality_alert_handlers t) \<longrightarrow>
           (\<exists>r s'. handle_quality_violation call env v s = Some (r, s')))"
proof (intro conjI allI impI)
  let ?s0 = "s\<lparr>integration_metrics := (integration_metrics s)
              \<lparr>data_quality_violations := data_quality_violations (integration_metrics s) + 1\<rparr>,
            emitted_events := emitted_events s @
              (if severity v = ERROR \<or> severity v = CRITICAL
               then [quality_violation_event env v] else [])\<rparr>"
  {
    fix r s'
    assume "handle_quality_violation call env v s = Some (r, s')"
    then have run: "notify_handlers call v 0 ?s0 = Some (r, s')"
      unfolding violation_own_step .
    have m: "integration_metrics s' = integration_metrics ?s0"
      using notify_handlers_keeps[where P = integration_metrics, OF frame run] .
    show "total_requests (integration_metrics s') = total_requests (integration_metrics s)"
      and "cache_hits (integration_metrics s') = cache_hits (integration_metrics s)"
      and "cross_source_discrepancies (integration_metrics s')
              = cross_source_discrepancies (integration_metrics s)"
      and "avg_response_time (integration_metrics s') = avg_response_time (integration_metrics s)"
      and "integration_metrics s'
              = (integration_metrics s)\<lparr>data_quality_violations :=
                    data_quality_violations (integration_metrics s) + 1\<rparr>"
      unfolding m by simp_all
  }
  {
    assume fixed: "\<forall>h \<in> set (quality_alert_handlers s). \<forall>t.
              quality_alert_handlers (snd (call h v t)) = quality_alert_handlers t"
    have hs: "quality_alert_handlers ?s0 = quality_alert_handlers s" by simp
    from notify_handlers_returns[where s = ?s0 and hs = "quality_alert_handlers s" and i = 0
        and call = call and v = v] hs fixed
    show "\<exists>r s'. handle_quality_violation call env v s = Some (r, s')"
      unfolding violation_own_step .
  }
qed

theorem violation_changes_only_its_counter_witness:
  "quality_alert_handlers (manager_with [7, 8]) = [7, 8]
   \<and> (\<forall>h t. integration_metrics (snd (sample_callables h (sample_violation ERROR) t))
            = integration_metrics t)
   \<and> (\<forall>t. quality_alert_handlers (snd (sample_callables 7 (sample_violation ERROR) t))
            = quality_alert_handlers t)
   \<and> (\<forall>t. quality_alert_handlers (snd (sample_callables 8 (sample_violation ERROR) t))
            = quality_alert_handlers t)
   \<and> (\<exists>r s'. handle_quality_violation sample_callables sample_env (sample_violation ERROR)
                 (manager_with [7, 8]) = Some (r, s')
         \<and> integration_metrics s'
             = \<lparr> total_requests = 0, cache_hits = 0, data_quality_violations = 1,
                 cross_source_discrepancies = 0, avg_response_time = Finite 0 \<rparr>)"
proof -
  let ?v = "sample_violation ERROR"
  let ?s = "manager_with [7, 8]"
  have frame: "\<forall>h t. integration_metrics (snd (sample_callables h ?v t)) = integration_metrics t"
    by (simp add: sample_callables_frame)
  have f7: "\<forall>t. quality_alert_handlers (snd (sample_callables 7 ?v t)) = quality_alert_handlers t"
    by (simp add: sample_callables_fixed)
  have f8: "\<forall>t. quality_alert_handlers (snd (sample_callables 8 ?v t)) = quality_alert_handlers t"
    by (simp add: sample_callables_fixed)
  have fixed: "\<forall>h \<in> set (quality_alert_handlers ?s). \<forall>t.
              quality_alert_handlers (snd (sample_callables h ?v t)) = quality_alert_handlers t"
    using f7 f8 by simp
  note inst = violation_changes_only_its_counter[where call = sample_callables and v = "?v"
      and s = "?s" and env = sample_env, OF frame]
  from mp[OF conjunct2[OF inst] fixed] obtain r s' where
    ret: "handle_quality_violation sample_callables sample_env ?v ?s = Some (r, s')"
    by blast
  from conjunct1[OF inst] ret have
    "integration_metrics s'
              = (integration_metrics ?s)\<lparr>data_quality_violations :=
                    data_quality_violations (integration_metrics ?s) + 1\<rparr>"
    by blast
  then have "integration_metrics s'
             = \<lparr> total_requests = 0, cache_hits = 0, data_quality_violations = 1,
                 cross_source_discrepancies = 0, avg_response_time = Finite 0 \<rparr>"
    by (simp add: manager_with_def initial_system_def initial_metrics_def
        register_quality_alert_handler_def)
  with ret frame f7 f8 show ?thesis by (simp del: One_nat_def)
qed

subsection \<open>Comprehensive fetch\<close>








lemma sports_to_fetch_increment [simp]:
  "sports_to_fetch sp (increment_total_requests s) = sports_to_fetch sp s"
  by (simp add: sports_to_fetch_def increment_total_requests_def split: option.splits)
















subsection \<open>Lifecycle\<close>

text \<open>
  None of the read methods reads the flag \<^verbatim>\<open>initialized\<close>: run from a state with
  the flag set to any value, each step gives the same outcome and the same state up to
  the flag.
\<close>

lemma swallow_apsnd: "swallow (apsnd f r) = apsnd f (swallow r)"
  by (cases r) (auto simp: swallow_def split: sum.splits py_error.splits)

lemma monitor_incoming_data_flag:
  "monitor_incoming_data env ds data (s\<lparr>initialized := b\<rparr>)
     = apsnd (\<lambda>t. t\<lparr>initialized := b\<rparr>) (monitor_incoming_data env ds data s)"
  by (simp add: monitor_incoming_data_def swallow_def Let_def split: sum.splits py_error.splits)

lemma monitor_sports_loop_flag:
  "monitor_sports_loop env entries (s\<lparr>initialized := b\<rparr>)
     = apsnd (\<lambda>t. t\<lparr>initialized := b\<rparr>) (monitor_sports_loop env entries s)"
proof (induction entries arbitrary: s)
  case Nil
  show ?case by simp
next
  case (Cons entry entries)
  obtain name data where entry: "entry = (name, data)" by (cases entry)
  obtain r s' where m: "monitor_incoming_data env SPORTRADAR data s = (r, s')"
    by (cases "monitor_incoming_data env SPORTRADAR data s")
  then have m': "monitor_incoming_data env SPORTRADAR data (s\<lparr>initialized := b\<rparr>)
                   = (r, s'\<lparr>initialized := b\<rparr>)"
    by (simp add: monitor_incoming_data_flag)
  show ?case
    using entry m m' Cons.IH[of s] Cons.IH[of s']
    by (cases r) (simp_all split: sum.splits)
qed

lemma sports_to_fetch_flag [simp]:
  "sports_to_fetch sp (s\<lparr>initialized := b\<rparr>) = sports_to_fetch sp s"
  by (simp add: sports_to_fetch_def split: option.splits)

lemma increment_total_requests_flag:
  "increment_total_requests (s\<lparr>initialized := b\<rparr>) = (increment_total_requests s)\<lparr>initialized := b\<rparr>"
  by (simp add: increment_total_requests_def)

lemma comprehensive_body_flag:
  "comprehensive_body env sp (s\<lparr>initialized := b\<rparr>)
     = apsnd (\<lambda>t. t\<lparr>initialized := b\<rparr>) (comprehensive_body env sp s)"
proof -
  let ?s1 = "increment_total_requests s"
  have loop: "\<And>entries. monitor_sports_loop env entries (?s1\<lparr>initialized := b\<rparr>)
     = apsnd (\<lambda>t. t\<lparr>initialized := b\<rparr>) (monitor_sports_loop env entries ?s1)"
    by (rule monitor_sports_loop_flag)
  show ?thesis
    unfolding comprehensive_body_def increment_total_requests_flag Let_def
      sports_to_fetch_increment sports_to_fetch_flag loop
    by (auto split: sum.splits prod.splits)
qed

lemma get_comprehensive_sports_data_flag:
  "get_comprehensive_sports_data env sp (s\<lparr>initialized := b\<rparr>)
     = apsnd (\<lambda>t. t\<lparr>initialized := b\<rparr>) (get_comprehensive_sports_data env sp s)"
  unfolding get_comprehensive_sports_data_def comprehensive_body_flag
  by (auto split: sum.splits prod.splits py_error.splits)

lemma get_enhanced_player_data_flag:
  "get_enhanced_player_data env sp player_id user_id (s\<lparr>initialized := b\<rparr>)
     = apsnd (\<lambda>t. t\<lparr>initialized := b\<rparr>) (get_enhanced_player_data env sp player_id user_id s)"
  unfolding get_enhanced_player_data_def enhanced_player_body_def increment_total_requests_flag Let_def
  by (auto simp: increment_total_requests_def split: sum.splits prod.splits py_error.splits)

lemma warm_game_flag:
  "warm_game env sp game (s\<lparr>initialized := b\<rparr>)
     = apsnd (\<lambda>t. t\<lparr>initialized := b\<rparr>) (warm_game env sp game s)"
  by (cases game) (simp_all add: Let_def split: sum.splits)

lemma warm_games_loop_flag:
  "warm_games_loop env sp games (s\<lparr>initialized := b\<rparr>)
     = apsnd (\<lambda>t. t\<lparr>initialized := b\<rparr>) (warm_games_loop env sp games s)"
proof (induction games arbitrary: s)
  case Nil
  show ?case by simp
next
  case (Cons game games)
  obtain r s' where w: "warm_game env sp game s = (r, s')"
    by (cases "warm_game env sp game s")
  then have w': "warm_game env sp game (s\<lparr>initialized := b\<rparr>) = (r, s'\<lparr>initialized := b\<rparr>)"
    by (simp add: warm_game_flag)
  show ?case
    using w w' Cons.IH[of s'] by (cases r) simp_all
qed

lemma warm_related_caches_flag:
  "warm_related_caches env sp live_data (s\<lparr>initialized := b\<rparr>)
     = apsnd (\<lambda>t. t\<lparr>initialized := b\<rparr>) (warm_related_caches env sp live_data s)"
proof -
  have inner:
    "(case py_get_default live_data ''games'' (PList []) of
        Inl e \<Rightarrow> (Inl e, s\<lparr>initialized := b\<rparr>)
      | Inr games_value \<Rightarrow>
          (case py_iter games_value of
             Inl e \<Rightarrow> (Inl e, s\<lparr>initialized := b\<rparr>)
           | Inr games \<Rightarrow> warm_games_loop env sp games (s\<lparr>initialized := b\<rparr>)))
     = apsnd (\<lambda>t. t\<lparr>initialized := b\<rparr>)
         (case py_get_default live_data ''games'' (PList []) of
            Inl e \<Rightarrow> (Inl e, s)
          | Inr games_value \<Rightarrow>
              (case py_iter games_value of
                 Inl e \<Rightarrow> (Inl e, s)
               | Inr games \<Rightarrow> warm_games_loop env sp games s))"
    by (simp add: warm_games_loop_flag split: sum.splits)
  show ?thesis
    unfolding warm_related_caches_def inner swallow_apsnd ..
qed

lemma get_live_scores_flag:
  "get_live_scores_with_quality_monitoring env sp (s\<lparr>initialized := b\<rparr>)
     = apsnd (\<lambda>t. t\<lparr>initialized := b\<rparr>) (get_live_scores_with_quality_monitoring env sp s)"
proof (cases "feed_get_live_scores env sp")
  case (Inl e)
  then show ?thesis
    by (simp add: get_live_scores_with_quality_monitoring_def live_scores_body_def
        split: py_error.splits)
next
  case (Inr live_data)
  obtain r1 s1 where m: "monitor_incoming_data env SPORTRADAR live_data s = (r1, s1)"
    by (cases "monitor_incoming_data env SPORTRADAR live_data s")
  then have m': "monitor_incoming_data env SPORTRADAR live_data (s\<lparr>initialized := b\<rparr>)
                   = (r1, s1\<lparr>initialized := b\<rparr>)"
    by (simp add: monitor_incoming_data_flag)
  obtain r2 s2 where w: "warm_related_caches env sp live_data s1 = (r2, s2)"
    by (cases "warm_related_caches env sp live_data s1")
  then have w': "warm_related_caches env sp live_data (s1\<lparr>initialized := b\<rparr>)
                   = (r2, s2\<lparr>initialized := b\<rparr>)"
    by (simp add: warm_related_caches_flag)
  show ?thesis
    using Inr m m' w w'
    by (cases r1; cases r2)
       (simp_all add: get_live_scores_with_quality_monitoring_def live_scores_body_def
          split: py_error.splits)
qed

text \<open>
  Out of the player fetch and out of the live-scores fetch comes no instance of
  \<^verbatim>\<open>Exception\<close>: their clause \<^verbatim>\<open>except Exception\<close> returns the error payload.
\<close>

lemma player_fetch_catches:
  "fst (get_enhanced_player_data env sp player_id user_id s) \<noteq> Inl (Exc e)"
  by (cases "enhanced_player_body env sp player_id user_id s")
     (auto simp: get_enhanced_player_data_def split: sum.splits py_error.splits)

lemma live_scores_fetch_catches:
  "fst (get_live_scores_with_quality_monitoring env sp s) \<noteq> Inl (Exc e)"
  by (cases "live_scores_body env sp s")
     (auto simp: get_live_scores_with_quality_monitoring_def split: sum.splits py_error.splits)

text \<open>
  C4, as stated, fails: the manager as constructed is not initialized, and the
  comprehensive fetch for NBA proceeds: it counts the request, calls the feed and
  returns the feed's data with cache status "api".
\<close>

theorem uninitialized_fetch_proceeds:
  "initialized (initial_system ()) = False
   \<and> fst (get_comprehensive_sports_data sample_env (Some NBA) (initial_system ()))
       = Inr (Envelope (sample_sports_data [NBA])
                [(''source'', MStr ''sportradar''),
                 (''timestamp'', MStr ''2025-01-01T00:00:00+00:00''),
                 (''response_time_ms'', MFloat (Finite 250)),
                 (''cache_status'', MStr ''api'')])
   \<and> total_requests (integration_metrics
         (snd (get_comprehensive_sports_data sample_env (Some NBA) (initial_system ())))) = 1"
  by (simp add: get_comprehensive_sports_data_def comprehensive_body_def Let_def
      sports_to_fetch_def increment_total_requests_def sample_sports_data_def
      monitor_incoming_data_def update_response_time_metric_def
      elapsed_def float_sub_def round_float_quarter milliseconds_sample
      sample_env_def initial_system_def initial_metrics_def)

text \<open>
  C4, as the code has it. The three public read methods do not consult the
  lifecycle flag: whatever its value, each returns the same result and leaves the
  same state (the flag itself untouched) as when the manager is initialized, and out
  of the player fetch and the live-scores fetch comes no exception of the class
  \<^verbatim>\<open>Exception\<close>, in any state. No NotInitialized error exists.
\<close>

theorem read_methods_ignore_lifecycle:
  "get_comprehensive_sports_data env sp_opt (s\<lparr>initialized := b\<rparr>)
     = (fst (get_comprehensive_sports_data env sp_opt (s\<lparr>initialized := True\<rparr>)),
        (snd (get_comprehensive_sports_data env sp_opt (s\<lparr>initialized := True\<rparr>)))\<lparr>initialized := b\<rparr>)
   \<and> get_enhanced_player_data env sp player_id user_id (s\<lparr>initialized := b\<rparr>)
     = (fst (get_enhanced_player_data env sp player_id user_id (s\<lparr>initialized := True\<rparr>)),
        (snd (get_enhanced_player_data env sp player_id user_id (s\<lparr>initialized := True\<rparr>)))\<lparr>initialized := b\<rparr>)
   \<and> get_live_scores_with_quality_monitoring env sp (s\<lparr>initialized := b\<rparr>)
     = (fst (get_live_scores_with_quality_monitoring env sp (s\<lparr>initialized := True\<rparr>)),
        (snd (get_live_scores_with_quality_monitoring env sp (s\<lparr>initialized := True\<rparr>)))\<lparr>initialized := b\<rparr>)
   \<and> (\<forall>e. fst (get_enhanced_player_data env sp player_id user_id (s\<lparr>initialized := b\<rparr>))
            \<noteq> Inl (Exc e))
   \<and> (\<forall>e. fst (get_live_scores_with_quality_monitoring env sp (s\<lparr>initialized := b\<rparr>))
            \<noteq> Inl (Exc e))"
proof -
  have a: "get_comprehensive_sports_data env sp_opt (s\<lparr>initialized := b\<rparr>)
     = (fst (get_comprehensive_sports_data env sp_opt (s\<lparr>initialized := True\<rparr>)),
        (snd (get_comprehensive_sports_data env sp_opt (s\<lparr>initialized := True\<rparr>)))\<lparr>initialized := b\<rparr>)"
    by (cases "get_comprehensive_sports_data env sp_opt s")
       (simp add: get_comprehensive_sports_data_flag)
  have p: "get_enhanced_player_data env sp player_id user_id (s\<lparr>initialized := b\<rparr>)
     = (fst (get_enhanced_player_data env sp player_id user_id (s\<lparr>initialized := True\<rparr>)),
        (snd (get_enhanced_player_data env sp player_id user_id (s\<lparr>initialized := True\<rparr>)))\<lparr>initialized := b\<rparr>)"
    by (cases "get_enhanced_player_data env sp player_id user_id s")
       (simp add: get_enhanced_player_data_flag)
  have l: "get_live_scores_with_quality_monitoring env sp (s\<lparr>initialized := b\<rparr>)
     = (fst (get_live_scores_with_quality_monitoring env sp (s\<lparr>initialized := True\<rparr>)),
        (snd (get_live_scores_with_quality_monitoring env sp (s\<lparr>initialized := True\<rparr>)))\<lparr>initialized := b\<rparr>)"
    by (cases "get_live_scores_with_quality_monitoring env sp s")
       (simp add: get_live_scores_flag)
  from a p l player_fetch_catches live_scores_fetch_catches show ?thesis by blast
qed

end
